theory Spec2Isabelle
  imports Main "HOL-Library.Sublist"
begin

section \<open>Data model\<close>

text \<open>
  \<^verbatim>\<open>class AWSCredentials\<close> of \<^verbatim>\<open>app/schemas/base.py\<close>. A pydantic model instance is always
  truthy, so \<^verbatim>\<open>if not aws_credentials\<close> holds exactly for \<^verbatim>\<open>None\<close>: the credentials of a
  request are an \<open>AWSCredentials option\<close>.
\<close>

record AWSCredentials =
  accessKeyId :: string
  secretAccessKey :: string
  region :: string

text \<open>
  A value of the \<^verbatim>\<open>arguments\<close> dictionary of a tool call: a string the model supplied, or
  the request's credentials object, which the orchestrator stores under \<^verbatim>\<open>'credentials'\<close>.
  \<open>present\<close> is Python's truth value of an optional argument (\<^verbatim>\<open>if not credentials\<close>,
  \<^verbatim>\<open>if not bucket_name\<close>): \<^verbatim>\<open>None\<close> and the empty string are false.
\<close>

datatype argval = Str string | Cred AWSCredentials

fun present :: "argval option \<Rightarrow> bool" where
  "present None = False"
| "present (Some (Str v)) = (v \<noteq> [])"
| "present (Some (Cred c)) = True"

text \<open>
  Python exceptions as values. \<open>PyException\<close> is a plain \<^verbatim>\<open>Exception(msg)\<close> raised by the
  source itself; \<open>ClientError\<close> is botocore's \<^verbatim>\<open>ClientError\<close> with
  \<^verbatim>\<open>e.response['Error']['Code']\<close> and \<^verbatim>\<open>str(e)\<close>; \<open>BotoCoreError\<close> is botocore's other
  family; \<open>LibError\<close> is any other exception of a library or of the runtime
  (\<^verbatim>\<open>TypeError\<close>, \<^verbatim>\<open>JSONDecodeError\<close>, \<^verbatim>\<open>AttributeError\<close>, ...) with its \<^verbatim>\<open>str(e)\<close>.
\<close>

datatype pyexc =
    PyException string
  | ClientError string string
  | BotoCoreError string
  | LibError string

fun str_exc :: "pyexc \<Rightarrow> string" where
  "str_exc (PyException m) = m"
| "str_exc (ClientError code m) = m"
| "str_exc (BotoCoreError m) = m"
| "str_exc (LibError m) = m"

text \<open>
  The \<^verbatim>\<open>data\<close> of a tool result. The type \<open>'x\<close> stands for the Python values the code only
  passes through: the floats \<^verbatim>\<open>round(size / (1024 * 1024), 2)\<close> and the dictionaries the
  IAM client returns.
  \<^item> \<open>BucketSizes\<close>: a list of \<^verbatim>\<open>{name, size_bytes, size_mb}\<close>;
  \<^item> \<open>Instances\<close>: a list of \<^verbatim>\<open>{id, type, state, public_ip, private_ip}\<close>;
  \<^item> \<open>RoleDetails\<close>: \<^verbatim>\<open>{role, attached_policies}\<close>;
  \<^item> \<open>BucketStats\<close>: a list of \<^verbatim>\<open>{bucket_name, file_count, total_size_bytes, total_size_mb}\<close>;
  \<^item> \<open>NoData\<close>: \<^verbatim>\<open>None\<close>, the default.
\<close>

datatype 'x payload =
    NoData
  | BucketSizes "(string \<times> nat \<times> 'x) list"
  | Instances "(string \<times> string \<times> string \<times> string \<times> string) list"
  | RoleDetails 'x 'x
  | BucketStats "(string \<times> nat \<times> nat \<times> 'x) list"

text \<open>
  \<^verbatim>\<open>class AWSResponse\<close> of \<^verbatim>\<open>app/tools/aws_tools.py\<close>. Every result the source builds
  has a message, so \<open>message\<close> is a string.
\<close>

record 'x AWSResponse =
  success :: bool
  data :: "'x payload"
  message :: string
  requires_credentials :: bool

text \<open>
  The conversation as sent to the primary model: \<^verbatim>\<open>tool_call.id\<close>,
  \<^verbatim>\<open>tool_call.function.name\<close>, \<^verbatim>\<open>tool_call.function.arguments\<close>, and the message
  dictionaries \<^verbatim>\<open>{"role", "content", "tool_call_id", "name", "tool_calls"}\<close> (an absent
  key is \<open>None\<close>, no tool calls is \<open>[]\<close>).
\<close>

record tool_call =
  tc_id :: string
  tc_name :: string
  tc_arguments :: string

record openai_message =
  m_role :: string
  m_content :: "string option"
  m_tool_call_id :: "string option"
  m_name :: "string option"
  m_tool_calls :: "tool_call list"

section \<open>The outside world\<close>

text \<open>
  Every call that leaves the process is logged: \<open>Api\<close> is one request of a boto3 client
  (its name, and the exception it raised if it did), \<open>Dispatch\<close> is one tool method entered
  through \<^verbatim>\<open>_execute_function\<close>, \<open>Completion\<close> is one request to the primary model (the
  messages sent, and whether the tool schemas were attached), \<open>Invoke\<close> is one request to
  the secondary model (the prompt sent). The state is the world the providers answer from,
  which every call may change, and the log.
\<close>

datatype event =
    Api string "pyexc option"
  | Dispatch string
  | Completion "openai_message list" bool
  | Invoke string

record 'w st =
  world :: 'w
  trace :: "event list"

definition raised :: "event list \<Rightarrow> pyexc list" where
  "raised evs = concat (map (\<lambda>ev. case ev of Api n (Some e) \<Rightarrow> [e] | _ \<Rightarrow> []) evs)"

definition api_calls :: "event list \<Rightarrow> string list" where
  "api_calls evs = concat (map (\<lambda>ev. case ev of Api n r \<Rightarrow> [n] | _ \<Rightarrow> []) evs)"

definition exc_of :: "pyexc + 'a \<Rightarrow> pyexc option" where
  "exc_of r = (case r of Inl e \<Rightarrow> Some e | Inr v \<Rightarrow> None)"

definition api :: "string \<Rightarrow> ('w \<Rightarrow> (pyexc + 'a) \<times> 'w) \<Rightarrow> 'w st \<Rightarrow> (pyexc + 'a) \<times> 'w st" where
  "api n f s =
     (case f (world s) of
        (r, w) \<Rightarrow> (r, s\<lparr>world := w, trace := trace s @ [Api n (exc_of r)]\<rparr>))"

text \<open>
  boto3, as \<^verbatim>\<open>app/tools/aws_tools.py\<close> uses it. A session or a client is identified by the
  credentials it was built from.
  \<^item> \<open>Session_error c\<close>: \<open>Some m\<close> when \<^verbatim>\<open>boto3.Session(...)\<close> raises, with \<^verbatim>\<open>str(e) = m\<close>;
  \<^item> \<open>client_error c service\<close>: \<open>Some m\<close> when \<^verbatim>\<open>session.client(service)\<close> raises. Building a
    client sends no request, so it raises no \<^verbatim>\<open>ClientError\<close> (that class is built from a
    service's error response only);
  \<^item> \<open>list_buckets\<close>: the bucket names of \<^verbatim>\<open>response['Buckets']\<close>;
  \<^item> \<open>paginate c bucket\<close>: what iterating \<^verbatim>\<open>paginator.paginate(Bucket=bucket)\<close> to its end
    meets: the pages fetched (a page is the list of its objects' \<^verbatim>\<open>Size\<close>, or \<open>None\<close> when it
    has no \<^verbatim>\<open>'Contents'\<close>) and the exception that ended the iteration, if one did;
  \<^item> \<open>describe_instances\<close>: \<^verbatim>\<open>response['Reservations']\<close>, each the list of its instances'
    \<^verbatim>\<open>InstanceId\<close>, \<^verbatim>\<open>InstanceType\<close>, \<^verbatim>\<open>State.Name\<close>, \<^verbatim>\<open>PublicIpAddress\<close> and
    \<^verbatim>\<open>PrivateIpAddress\<close> (the last two may be absent);
  \<^item> \<open>get_role\<close>, \<open>list_attached_role_policies\<close>: \<^verbatim>\<open>role['Role']\<close> and
    \<^verbatim>\<open>policies['AttachedPolicies']\<close>.
\<close>

type_synonym page = "nat list option"

type_synonym ec2_instance = "string \<times> string \<times> string \<times> string option \<times> string option"

record ('w, 'x) boto =
  Session_error :: "AWSCredentials \<Rightarrow> string option"
  client_error :: "AWSCredentials \<Rightarrow> string \<Rightarrow> string option"
  list_buckets :: "AWSCredentials \<Rightarrow> 'w \<Rightarrow> (pyexc + string list) \<times> 'w"
  paginate :: "AWSCredentials \<Rightarrow> string \<Rightarrow> 'w \<Rightarrow> (page list \<times> pyexc option) \<times> 'w"
  describe_instances :: "AWSCredentials \<Rightarrow> 'w \<Rightarrow> (pyexc + ec2_instance list list) \<times> 'w"
  get_role :: "AWSCredentials \<Rightarrow> string \<Rightarrow> 'w \<Rightarrow> (pyexc + 'x) \<times> 'w"
  list_attached_role_policies :: "AWSCredentials \<Rightarrow> string \<Rightarrow> 'w \<Rightarrow> (pyexc + 'x) \<times> 'w"

text \<open>
  The Python library functions the source calls on the values it passes through:
  \<^item> \<open>round_mb n\<close> is \<^verbatim>\<open>round(n / (1024 * 1024), 2)\<close>, \<open>sum_mb\<close> is \<^verbatim>\<open>sum(...)\<close> of such
    floats, \<open>str_mb\<close> is \<^verbatim>\<open>f"{x}"\<close> and \<open>fmt_mb\<close> is \<^verbatim>\<open>f"{x:.2f}"\<close>;
  \<^item> \<open>json_dumps\<close> is \<^verbatim>\<open>json.dumps\<close> on a tool's data (\<open>Inl m\<close> when it raises, for a value
    that is not serializable);
  \<^item> \<open>loads_arguments\<close> is \<^verbatim>\<open>json.loads\<close> on a tool call's arguments: \<open>Inl m\<close> when it raises,
    otherwise the object as an association list. The tool schemas type the arguments as an
    object and every parameter of the four operations as a string;
  \<^item> \<open>call_error f keys\<close> is the \<^verbatim>\<open>str(e)\<close> of the \<^verbatim>\<open>TypeError\<close> raised when \<^verbatim>\<open>f(**arguments)\<close>
    does not fit \<open>f\<close>'s signature;
  \<^item> \<open>other_attribute n\<close> holds when \<^verbatim>\<open>hasattr(self.aws_tools, n)\<close> is true for a name that is
    not one of the four operations (\<^verbatim>\<open>session\<close>, \<^verbatim>\<open>_init_session\<close>, \<^verbatim>\<open>__init__\<close>, ...). None
    of these is a coroutine function, so calling and awaiting one always raises;
    \<open>attribute_error n keys\<close> is that exception's \<^verbatim>\<open>str(e)\<close>;
  \<^item> \<open>validation_error\<close> is the \<^verbatim>\<open>str(e)\<close> of pydantic's error for
    \<^verbatim>\<open>ChatResponse(response=None)\<close>.
\<close>

record 'x pylib =
  round_mb :: "nat \<Rightarrow> 'x"
  sum_mb :: "'x list \<Rightarrow> 'x"
  str_mb :: "'x \<Rightarrow> string"
  fmt_mb :: "'x \<Rightarrow> string"
  json_dumps :: "'x payload \<Rightarrow> string + string"
  loads_arguments :: "string \<Rightarrow> string + (string \<times> string) list"
  call_error :: "string \<Rightarrow> string list \<Rightarrow> string"
  other_attribute :: "string \<Rightarrow> bool"
  attribute_error :: "string \<Rightarrow> string list \<Rightarrow> string"
  validation_error :: string

fun str_nat :: "nat \<Rightarrow> string" where
  "str_nat n =
     (if n < 10 then [char_of (48 + n)]
      else str_nat (n div 10) @ [char_of (48 + n mod 10)])"

declare str_nat.simps [simp del]

definition quoted :: "string \<Rightarrow> string" where
  "quoted v = [CHR 0x27] @ v @ [CHR 0x27]"

section \<open>AWS Tool Executor (\<^verbatim>\<open>app/tools/aws_tools.py\<close>)\<close>

text \<open>
  \<^verbatim>\<open>_init_session\<close> returns its error text and the session it stored. Every operation
  builds its client from the session \<^verbatim>\<open>_init_session\<close> has just stored, so the session is
  passed on instead of kept in \<^verbatim>\<open>self.session\<close>.
\<close>

definition init_session ::
  "('w, 'x) boto \<Rightarrow> argval option \<Rightarrow> string option \<times> AWSCredentials option" where
  "init_session B credentials =
     (if present credentials then
        (case credentials of
           Some (Cred c) \<Rightarrow>
             (case Session_error B c of
                None \<Rightarrow> (None, Some c)
              | Some e \<Rightarrow> (Some (''Failed to initialize AWS session: '' @ e), None))
         | _ \<Rightarrow>
             (Some (''Failed to initialize AWS session: '' @ quoted ''str''
                @ '' object has no attribute '' @ quoted ''accessKeyId''), None))
      else (Some ''AWS credentials are required for this operation'', None))"

definition get_client ::
  "('w, 'x) boto \<Rightarrow> string \<Rightarrow> argval option \<Rightarrow> pyexc + AWSCredentials" where
  "get_client B service credentials =
     (case init_session B credentials of
        (Some error, session) \<Rightarrow> Inl (PyException error)
      | (None, None) \<Rightarrow> Inl (LibError (quoted ''NoneType'' @ '' object has no attribute '' @ quoted ''client''))
      | (None, Some c) \<Rightarrow>
          (case client_error B c service of
             Some e \<Rightarrow> Inl (LibError e)
           | None \<Rightarrow> Inr c))"

text \<open>
  Iterating a paginator to its end: one request per page, and one more for the request
  that raised.
\<close>

definition paginate_all ::
  "('w, 'x) boto \<Rightarrow> AWSCredentials \<Rightarrow> string \<Rightarrow> 'w st \<Rightarrow> (pyexc + page list) \<times> 'w st" where
  "paginate_all B c bucket s =
     (case paginate B c bucket (world s) of
        ((pages, err), w) \<Rightarrow>
          (let fetched = map (\<lambda>p. Api ''s3.list_objects_v2'' None) pages in
           case err of
             None \<Rightarrow> (Inr pages, s\<lparr>world := w, trace := trace s @ fetched\<rparr>)
           | Some e \<Rightarrow>
               (Inl e, s\<lparr>world := w,
                  trace := trace s @ fetched @ [Api ''s3.list_objects_v2'' (Some e)]\<rparr>)))"

fun page_size :: "page \<Rightarrow> nat" where
  "page_size None = 0"
| "page_size (Some contents) = sum_list contents"

fun page_count :: "page \<Rightarrow> nat" where
  "page_count None = 0"
| "page_count (Some contents) = length contents"

subsection \<open>\<^verbatim>\<open>get_s3_bucket_sizes\<close>\<close>

fun bucket_sizes_loop ::
  "'x pylib \<Rightarrow> ('w, 'x) boto \<Rightarrow> AWSCredentials \<Rightarrow> string list \<Rightarrow> (string \<times> nat \<times> 'x) list \<Rightarrow>
     'w st \<Rightarrow> (pyexc + (string \<times> nat \<times> 'x) list) \<times> 'w st" where
  "bucket_sizes_loop L B s3 [] buckets s = (Inr buckets, s)"
| "bucket_sizes_loop L B s3 (bucket # rest) buckets s =
     (case paginate_all B s3 bucket s of
        (Inl e, s') \<Rightarrow> (Inl e, s')
      | (Inr pages, s') \<Rightarrow>
          (let size = sum_list (map page_size pages) in
           bucket_sizes_loop L B s3 rest (buckets @ [(bucket, size, round_mb L size)]) s'))"

definition bucket_sizes_try ::
  "'x pylib \<Rightarrow> ('w, 'x) boto \<Rightarrow> argval option \<Rightarrow> 'w st \<Rightarrow>
     (pyexc + (string \<times> nat \<times> 'x) list) \<times> 'w st" where
  "bucket_sizes_try L B credentials s =
     (case get_client B ''s3'' credentials of
        Inl e \<Rightarrow> (Inl e, s)
      | Inr s3 \<Rightarrow>
          (case api ''s3.list_buckets'' (list_buckets B s3) s of
             (Inl e, s') \<Rightarrow> (Inl e, s')
           | (Inr names, s') \<Rightarrow> bucket_sizes_loop L B s3 names [] s'))"

definition get_s3_bucket_sizes ::
  "'x pylib \<Rightarrow> ('w, 'x) boto \<Rightarrow> argval option \<Rightarrow> 'w st \<Rightarrow> 'x AWSResponse \<times> 'w st" where
  "get_s3_bucket_sizes L B credentials s =
     (if \<not> present credentials then
        (\<lparr>success = False, data = NoData,
          message = ''To list your S3 buckets and their sizes, I'll need your AWS credentials. Please provide them securely.'',
          requires_credentials = True\<rparr>, s)
      else
        (case bucket_sizes_try L B credentials s of
           (Inr buckets, s') \<Rightarrow>
             (\<lparr>success = True, data = BucketSizes buckets,
               message = ''Successfully retrieved information for '' @ str_nat (length buckets) @ '' bucket(s)'',
               requires_credentials = False\<rparr>, s')
         | (Inl (ClientError error_code text), s') \<Rightarrow>
             (if error_code = ''InvalidAccessKeyId'' then
                \<lparr>success = False, data = NoData,
                 message = ''The AWS Access Key ID you provided is invalid. Please check your credentials.'',
                 requires_credentials = True\<rparr>
              else if error_code = ''SignatureDoesNotMatch'' then
                \<lparr>success = False, data = NoData,
                 message = ''The AWS Secret Access Key you provided is invalid. Please check your credentials.'',
                 requires_credentials = True\<rparr>
              else if error_code = ''AccessDenied'' then
                \<lparr>success = False, data = NoData,
                 message = ''Your AWS credentials don't have permission to list S3 buckets. Please check your IAM permissions.'',
                 requires_credentials = True\<rparr>
              else
                \<lparr>success = False, data = NoData,
                 message = ''AWS error: '' @ text,
                 requires_credentials = False\<rparr>, s')
         | (Inl e, s') \<Rightarrow>
             (\<lparr>success = False, data = NoData,
               message = ''Error getting S3 bucket sizes: '' @ str_exc e,
               requires_credentials = False\<rparr>, s')))"

subsection \<open>\<^verbatim>\<open>list_ec2_instances\<close>\<close>

fun instance_entry :: "ec2_instance \<Rightarrow> string \<times> string \<times> string \<times> string \<times> string" where
  "instance_entry (InstanceId, InstanceType, StateName, PublicIpAddress, PrivateIpAddress) =
     (InstanceId, InstanceType, StateName,
      (case PublicIpAddress of None \<Rightarrow> ''N/A'' | Some ip \<Rightarrow> ip),
      (case PrivateIpAddress of None \<Rightarrow> ''N/A'' | Some ip \<Rightarrow> ip))"

definition ec2_instances_try ::
  "('w, 'x) boto \<Rightarrow> argval option \<Rightarrow> 'w st \<Rightarrow>
     (pyexc + (string \<times> string \<times> string \<times> string \<times> string) list) \<times> 'w st" where
  "ec2_instances_try B credentials s =
     (case get_client B ''ec2'' credentials of
        Inl e \<Rightarrow> (Inl e, s)
      | Inr ec2 \<Rightarrow>
          (case api ''ec2.describe_instances'' (describe_instances B ec2) s of
             (Inl e, s') \<Rightarrow> (Inl e, s')
           | (Inr reservations, s') \<Rightarrow> (Inr (map instance_entry (concat reservations)), s')))"

definition invalid_credentials_message :: string where
  "invalid_credentials_message =
     ''Invalid AWS credentials provided. Please check your Access Key ID and Secret Access Key.''"

definition list_ec2_instances ::
  "('w, 'x) boto \<Rightarrow> argval option \<Rightarrow> 'w st \<Rightarrow> 'x AWSResponse \<times> 'w st" where
  "list_ec2_instances B credentials s =
     (if \<not> present credentials then
        (\<lparr>success = False, data = NoData,
          message = ''To list your EC2 instances, I'll need your AWS credentials. Please provide them securely.'',
          requires_credentials = True\<rparr>, s)
      else
        (case ec2_instances_try B credentials s of
           (Inr instances, s') \<Rightarrow>
             (\<lparr>success = True, data = Instances instances,
               message = ''Successfully retrieved information for '' @ str_nat (length instances) @ '' instance(s)'',
               requires_credentials = False\<rparr>, s')
         | (Inl (ClientError error_code text), s') \<Rightarrow>
             (if error_code \<in> set [''InvalidAccessKeyId'', ''SignatureDoesNotMatch''] then
                \<lparr>success = False, data = NoData,
                 message = invalid_credentials_message,
                 requires_credentials = True\<rparr>
              else if error_code = ''AccessDenied'' then
                \<lparr>success = False, data = NoData,
                 message = ''Your AWS credentials don't have permission to list EC2 instances. Please check your IAM permissions.'',
                 requires_credentials = True\<rparr>
              else
                \<lparr>success = False, data = NoData,
                 message = ''AWS error: '' @ text,
                 requires_credentials = False\<rparr>, s')
         | (Inl e, s') \<Rightarrow>
             (\<lparr>success = False, data = NoData,
               message = ''Error listing EC2 instances: '' @ str_exc e,
               requires_credentials = False\<rparr>, s')))"

subsection \<open>\<^verbatim>\<open>describe_iam_role\<close>\<close>

definition iam_role_try ::
  "('w, 'x) boto \<Rightarrow> string \<Rightarrow> argval option \<Rightarrow> 'w st \<Rightarrow> (pyexc + 'x \<times> 'x) \<times> 'w st" where
  "iam_role_try B role_name credentials s =
     (case get_client B ''iam'' credentials of
        Inl e \<Rightarrow> (Inl e, s)
      | Inr iam \<Rightarrow>
          (case api ''iam.get_role'' (get_role B iam role_name) s of
             (Inl e, s') \<Rightarrow> (Inl e, s')
           | (Inr role, s') \<Rightarrow>
               (case api ''iam.list_attached_role_policies''
                       (list_attached_role_policies B iam role_name) s' of
                  (Inl e, s'') \<Rightarrow> (Inl e, s'')
                | (Inr policies, s'') \<Rightarrow> (Inr (role, policies), s''))))"

definition describe_iam_role ::
  "('w, 'x) boto \<Rightarrow> string \<Rightarrow> argval option \<Rightarrow> 'w st \<Rightarrow> 'x AWSResponse \<times> 'w st" where
  "describe_iam_role B role_name credentials s =
     (if \<not> present credentials then
        (\<lparr>success = False, data = NoData,
          message = ''To describe the IAM role '' @ quoted role_name @ '', I'll need your AWS credentials. Please provide them securely.'',
          requires_credentials = True\<rparr>, s)
      else
        (case iam_role_try B role_name credentials s of
           (Inr (role, policies), s') \<Rightarrow>
             (\<lparr>success = True, data = RoleDetails role policies,
               message = ''Successfully retrieved details for IAM role '' @ quoted role_name,
               requires_credentials = False\<rparr>, s')
         | (Inl (ClientError error_code text), s') \<Rightarrow>
             (if error_code \<in> set [''InvalidAccessKeyId'', ''SignatureDoesNotMatch''] then
                \<lparr>success = False, data = NoData,
                 message = invalid_credentials_message,
                 requires_credentials = True\<rparr>
              else if error_code = ''AccessDenied'' then
                \<lparr>success = False, data = NoData,
                 message = ''Your AWS credentials don't have permission to access IAM roles. Please check your IAM permissions.'',
                 requires_credentials = True\<rparr>
              else
                \<lparr>success = False, data = NoData,
                 message = ''AWS error: '' @ text,
                 requires_credentials = False\<rparr>, s')
         | (Inl e, s') \<Rightarrow>
             (\<lparr>success = False, data = NoData,
               message = ''Error describing IAM role: '' @ str_exc e,
               requires_credentials = False\<rparr>, s')))"

subsection \<open>\<^verbatim>\<open>get_s3_bucket_file_count\<close>\<close>

text \<open>
  \<^verbatim>\<open>bucket_name: str = None\<close>; \<^verbatim>\<open>f"{bucket_name}"\<close> of \<^verbatim>\<open>None\<close> is the text \<^verbatim>\<open>None\<close>.
\<close>

fun str_opt :: "string option \<Rightarrow> string" where
  "str_opt None = ''None''"
| "str_opt (Some v) = v"

definition no_such_bucket :: "string \<Rightarrow> 'x AWSResponse" where
  "no_such_bucket bucket =
     \<lparr>success = False, data = NoData,
      message = ''The specified bucket '' @ quoted bucket @ '' does not exist'',
      requires_credentials = False\<rparr>"

text \<open>
  The loop over the buckets, with its own \<^verbatim>\<open>try\<close>: \<open>Inr (Inl r)\<close> is the \<^verbatim>\<open>return\<close> inside
  the loop, \<open>Inr (Inr stats)\<close> is the loop's normal end, \<open>Inl e\<close> an exception that leaves it.
\<close>

fun file_count_loop ::
  "'x pylib \<Rightarrow> ('w, 'x) boto \<Rightarrow> AWSCredentials \<Rightarrow> string list \<Rightarrow>
     (string \<times> nat \<times> nat \<times> 'x) list \<Rightarrow> 'w st \<Rightarrow>
     (pyexc + 'x AWSResponse + (string \<times> nat \<times> nat \<times> 'x) list) \<times> 'w st" where
  "file_count_loop L B s3 [] bucket_stats s = (Inr (Inr bucket_stats), s)"
| "file_count_loop L B s3 (bucket # rest) bucket_stats s =
     (case paginate_all B s3 bucket s of
        (Inl (ClientError error_code text), s') \<Rightarrow>
          (if error_code = ''NoSuchBucket'' then (Inr (Inl (no_such_bucket bucket)), s')
           else (Inl (ClientError error_code text), s'))
      | (Inl e, s') \<Rightarrow> (Inl e, s')
      | (Inr pages, s') \<Rightarrow>
          (let file_count = sum_list (map page_count pages);
               total_size = sum_list (map page_size pages)
           in file_count_loop L B s3 rest
                (bucket_stats @ [(bucket, file_count, total_size, round_mb L total_size)]) s'))"

definition file_count_message :: "'x pylib \<Rightarrow> (string \<times> nat \<times> nat \<times> 'x) list \<Rightarrow> string" where
  "file_count_message L bucket_stats =
     (case bucket_stats of
        [(bucket_name, file_count, total_size_bytes, total_size_mb)] \<Rightarrow>
          ''Bucket '' @ quoted bucket_name @ '' contains '' @ str_nat file_count
            @ '' files ('' @ str_mb L total_size_mb @ '' MB)''
      | _ \<Rightarrow>
          ''Found '' @ str_nat (sum_list (map (\<lambda>(b, n, z, mb). n) bucket_stats))
            @ '' files across '' @ str_nat (length bucket_stats)
            @ '' buckets (Total size: ''
            @ fmt_mb L (sum_mb L (map (\<lambda>(b, n, z, mb). mb) bucket_stats)) @ '' MB)'')"

definition file_count_try ::
  "'x pylib \<Rightarrow> ('w, 'x) boto \<Rightarrow> AWSCredentials \<Rightarrow> string option \<Rightarrow> 'w st \<Rightarrow>
     (pyexc + 'x AWSResponse) \<times> 'w st" where
  "file_count_try L B s3 bucket_name s =
     (case (if bucket_name = None \<or> bucket_name = Some []
            then api ''s3.list_buckets'' (list_buckets B s3) s
            else (Inr [str_opt bucket_name], s)) of
        (Inl e, s') \<Rightarrow> (Inl e, s')
      | (Inr buckets, s') \<Rightarrow>
          (case file_count_loop L B s3 buckets [] s' of
             (Inl e, s'') \<Rightarrow> (Inl e, s'')
           | (Inr (Inl r), s'') \<Rightarrow> (Inr r, s'')
           | (Inr (Inr bucket_stats), s'') \<Rightarrow>
               (Inr \<lparr>success = True, data = BucketStats bucket_stats,
                     message = file_count_message L bucket_stats,
                     requires_credentials = False\<rparr>, s'')))"

definition get_s3_bucket_file_count ::
  "'x pylib \<Rightarrow> ('w, 'x) boto \<Rightarrow> string option \<Rightarrow> argval option \<Rightarrow> 'w st \<Rightarrow>
     'x AWSResponse \<times> 'w st" where
  "get_s3_bucket_file_count L B bucket_name credentials s =
     (if \<not> present credentials then
        (\<lparr>success = False, data = NoData,
          message = ''To count files in your S3 buckets, I'll need your AWS credentials. Please provide them securely.'',
          requires_credentials = True\<rparr>, s)
      else
        (case get_client B ''s3'' credentials of
           Inl e \<Rightarrow>
             (\<lparr>success = False, data = NoData,
               message = ''Error counting S3 files: '' @ str_exc e,
               requires_credentials = False\<rparr>, s)
         | Inr s3 \<Rightarrow>
             (case file_count_try L B s3 bucket_name s of
                (Inr r, s') \<Rightarrow> (r, s')
              | (Inl (ClientError error_code text), s') \<Rightarrow>
                  (if error_code = ''NoSuchBucket'' then no_such_bucket (str_opt bucket_name)
                   else if error_code \<in> set [''InvalidAccessKeyId'', ''SignatureDoesNotMatch''] then
                     \<lparr>success = False, data = NoData,
                      message = invalid_credentials_message,
                      requires_credentials = True\<rparr>
                   else if error_code = ''AccessDenied'' then
                     \<lparr>success = False, data = NoData,
                      message = ''Your AWS credentials don't have permission to list objects in S3 buckets. Please check your IAM permissions.'',
                      requires_credentials = True\<rparr>
                   else
                     \<lparr>success = False, data = NoData,
                      message = ''AWS error: '' @ text,
                      requires_credentials = False\<rparr>, s')
              | (Inl e, s') \<Rightarrow>
                  (\<lparr>success = False, data = NoData,
                    message = ''Error counting S3 files: '' @ str_exc e,
                    requires_credentials = False\<rparr>, s'))))"

section \<open>Conversation Orchestrator (\<^verbatim>\<open>app/agents/orchestrator.py\<close>)\<close>

datatype MessageRole = USER | ASSISTANT | SYSTEM

fun role_value :: "MessageRole \<Rightarrow> string" where
  "role_value USER = ''user''"
| "role_value ASSISTANT = ''assistant''"
| "role_value SYSTEM = ''system''"

record Message =
  role :: MessageRole
  content :: string

text \<open>
  \<^verbatim>\<open>class ChatResponse\<close>. An entry of \<open>aws_resources_affected\<close> is
  \<^verbatim>\<open>{'operation', 'parameters'}\<close>.
\<close>

record ChatResponse =
  response :: string
  actions_taken :: "string list"
  aws_resources_affected :: "(string \<times> (string \<times> string) list) list"
  validation_results :: "string option"
  requiresCredentials :: "bool option"
  error :: "string option"

text \<open>\<^verbatim>\<open>ChatResponse(response=r)\<close> with the defaults of the class.\<close>

definition chat_response :: "string \<Rightarrow> ChatResponse" where
  "chat_response r =
     \<lparr>response = r, actions_taken = [], aws_resources_affected = [],
      validation_results = None, requiresCredentials = None, error = None\<rparr>"

text \<open>
  The primary model: \<open>chat_completions_create messages with_tools\<close> is
  \<^verbatim>\<open>self.client.chat.completions.create\<close>, answering with
  \<^verbatim>\<open>response.choices[0].message\<close>: its \<^verbatim>\<open>content\<close> and its \<^verbatim>\<open>tool_calls\<close> (\<^verbatim>\<open>None\<close> is \<open>[]\<close>).
\<close>

record completion_message =
  reply_content :: "string option"
  reply_tool_calls :: "tool_call list"

record 'w openai =
  chat_completions_create ::
    "openai_message list \<Rightarrow> bool \<Rightarrow> 'w \<Rightarrow> (pyexc + completion_message) \<times> 'w"

definition create_completion ::
  "'w openai \<Rightarrow> openai_message list \<Rightarrow> bool \<Rightarrow> 'w st \<Rightarrow> (pyexc + completion_message) \<times> 'w st" where
  "create_completion M messages with_tools s =
     (case chat_completions_create M messages with_tools (world s) of
        (r, w) \<Rightarrow> (r, s\<lparr>world := w, trace := trace s @ [Completion messages with_tools]\<rparr>))"

text \<open>The keys of \<^verbatim>\<open>self.aws_operations\<close>; every value is \<^verbatim>\<open>True\<close>.\<close>

definition aws_operations :: "string list" where
  "aws_operations =
     [''get_s3_bucket_sizes'', ''list_ec2_instances'', ''describe_iam_role'',
      ''create_s3_bucket'', ''create_lambda_function'', ''create_iam_role'',
      ''assign_policy_to_role'', ''get_s3_bucket_file_count'']"

definition requires_aws_credentials :: "string \<Rightarrow> bool" where
  "requires_aws_credentials function_name = (function_name \<in> set aws_operations)"

text \<open>The \<^verbatim>\<open>name\<close> of every entry of \<^verbatim>\<open>self.tools\<close>, in order.\<close>

definition tools :: "string list" where
  "tools =
     [''get_s3_bucket_file_count'', ''get_s3_bucket_sizes'', ''list_ec2_instances'',
      ''describe_iam_role'', ''suggest_iam_policy'', ''create_s3_bucket'',
      ''create_lambda_function'', ''create_iam_role'', ''assign_policy_to_role'']"

text \<open>
  The \<^verbatim>\<open>arguments\<close> dictionary: the entries parsed from the model's text, and the credentials
  object once \<^verbatim>\<open>arguments['credentials'] = aws_credentials\<close> has stored it (it then hides an
  entry of that name).
\<close>

type_synonym arguments = "(string \<times> string) list \<times> AWSCredentials option"

definition lookup_credentials :: "arguments \<Rightarrow> argval option" where
  "lookup_credentials a =
     (case snd a of
        Some c \<Rightarrow> Some (Cred c)
      | None \<Rightarrow> map_option Str (map_of (fst a) ''credentials''))"

definition arg_keys :: "arguments \<Rightarrow> string list" where
  "arg_keys a =
     map fst (fst a) @
       (if snd a \<noteq> None \<and> ''credentials'' \<notin> set (map fst (fst a)) then [''credentials''] else [])"

definition accepts :: "string list \<Rightarrow> arguments \<Rightarrow> bool" where
  "accepts params a = list_all (\<lambda>k. k \<in> set params) (arg_keys a)"

definition dispatch :: "string \<Rightarrow> 'w st \<Rightarrow> 'w st" where
  "dispatch function_name s = s\<lparr>trace := trace s @ [Dispatch function_name]\<rparr>"

text \<open>
  \<^verbatim>\<open>_execute_function\<close>: \<^verbatim>\<open>hasattr\<close>, \<^verbatim>\<open>getattr\<close> and the call \<^verbatim>\<open>function(**arguments)\<close>
  (\<^verbatim>\<open>function()\<close> for an empty dictionary binds the same way). The class \<^verbatim>\<open>AWSTools\<close>
  defines the four operations below and no other coroutine.
\<close>

definition execute_function ::
  "'x pylib \<Rightarrow> ('w, 'x) boto \<Rightarrow> string \<Rightarrow> arguments \<Rightarrow> 'w st \<Rightarrow> (pyexc + 'x AWSResponse) \<times> 'w st" where
  "execute_function L B function_name arguments s =
     (let type_error = (Inl (LibError (call_error L function_name (arg_keys arguments))), s);
          credentials = lookup_credentials arguments
      in
      if function_name = ''get_s3_bucket_sizes'' then
        (if accepts [''credentials''] arguments then
           (case get_s3_bucket_sizes L B credentials (dispatch function_name s) of
              (r, s') \<Rightarrow> (Inr r, s'))
         else type_error)
      else if function_name = ''list_ec2_instances'' then
        (if accepts [''credentials''] arguments then
           (case list_ec2_instances B credentials (dispatch function_name s) of
              (r, s') \<Rightarrow> (Inr r, s'))
         else type_error)
      else if function_name = ''describe_iam_role'' then
        (if accepts [''role_name'', ''credentials''] arguments then
           (case map_of (fst arguments) ''role_name'' of
              None \<Rightarrow> type_error
            | Some role_name \<Rightarrow>
                (case describe_iam_role B role_name credentials (dispatch function_name s) of
                   (r, s') \<Rightarrow> (Inr r, s')))
         else type_error)
      else if function_name = ''get_s3_bucket_file_count'' then
        (if accepts [''bucket_name'', ''credentials''] arguments then
           (case get_s3_bucket_file_count L B (map_of (fst arguments) ''bucket_name'') credentials
                   (dispatch function_name s) of
              (r, s') \<Rightarrow> (Inr r, s'))
         else type_error)
      else if other_attribute L function_name then
        (Inl (LibError (attribute_error L function_name (arg_keys arguments))), s)
      else (Inl (PyException (''Unknown function: '' @ function_name)), s))"

text \<open>\<^verbatim>\<open>str.lower\<close> on the ASCII letters, and \<^verbatim>\<open>sub in text\<close>.\<close>

definition lower_char :: "char \<Rightarrow> char" where
  "lower_char c =
     (let n = (of_char c :: nat) in if 65 \<le> n \<and> n \<le> 90 then char_of (n + 32) else c)"

definition lower :: "string \<Rightarrow> string" where
  "lower text = map lower_char text"

fun contains :: "string \<Rightarrow> string \<Rightarrow> bool" where
  "contains sub [] = (sub = [])"
| "contains sub (c # cs) = (prefix sub (c # cs) \<or> contains sub cs)"

text \<open>
  What one pass of the loop over \<^verbatim>\<open>message.tool_calls\<close> ends with: a \<^verbatim>\<open>return\<close> of
  \<^verbatim>\<open>process_request\<close>, an exception, or the next pass with \<^verbatim>\<open>actions_taken\<close>,
  \<^verbatim>\<open>aws_resources_affected\<close> and \<^verbatim>\<open>openai_messages\<close> as they now are (named \<open>actions\<close>,
  \<open>resources\<close> and \<open>conversation\<close> below, the record fields having taken the names).
\<close>

type_synonym loop_state =
  "string list \<times> (string \<times> (string \<times> string) list) list \<times> openai_message list"

datatype outcome = Return ChatResponse | Raise pyexc | Next loop_state

text \<open>The handler \<^verbatim>\<open>except Exception as e\<close> around the call and the recording of its result.\<close>

definition execution_failed :: "pyexc \<Rightarrow> outcome" where
  "execution_failed e =
     (let error_msg = str_exc e in
      if contains ''credentials'' (lower error_msg) \<or> contains ''access'' (lower error_msg) then
        Return ((chat_response
          (''I need valid AWS credentials to perform this operation: '' @ error_msg))
          \<lparr>requiresCredentials := Some True\<rparr>)
      else Raise e)"

definition needs_credentials_text :: string where
  "needs_credentials_text =
     ''I'll need your AWS credentials to perform this operation. Don't worry - your credentials will be used securely and only for this specific task. Please provide them in the prompt.''"

definition assistant_record :: "tool_call \<Rightarrow> openai_message" where
  "assistant_record tc =
     \<lparr>m_role = ''assistant'', m_content = None, m_tool_call_id = Some (tc_id tc),
      m_name = Some (tc_name tc), m_tool_calls = [tc]\<rparr>"

definition tool_record :: "tool_call \<Rightarrow> string \<Rightarrow> openai_message" where
  "tool_record tc text =
     \<lparr>m_role = ''tool'', m_content = Some text, m_tool_call_id = Some (tc_id tc),
      m_name = None, m_tool_calls = []\<rparr>"

definition handle_tool_call ::
  "'x pylib \<Rightarrow> ('w, 'x) boto \<Rightarrow> AWSCredentials option \<Rightarrow> tool_call \<Rightarrow> loop_state \<Rightarrow> 'w st \<Rightarrow>
     outcome \<times> 'w st" where
  "handle_tool_call L B aws_credentials tc acc s =
     (case acc of
        (actions, resources, conversation) \<Rightarrow>
          (let function_name = tc_name tc in
           (case loads_arguments L (tc_arguments tc) of
              Inl m \<Rightarrow> (Raise (LibError m), s)
            | Inr entries \<Rightarrow>
                (if requires_aws_credentials function_name \<and> aws_credentials = None then
                   (Return ((chat_response needs_credentials_text)
                      \<lparr>requiresCredentials := Some True\<rparr>), s)
                 else
                   (let arguments =
                          (if requires_aws_credentials function_name
                           then (entries, aws_credentials) else (entries, None))
                    in
                    (case execute_function L B function_name arguments s of
                       (Inl e, s') \<Rightarrow> (execution_failed e, s')
                     | (Inr result, s') \<Rightarrow>
                         (if requires_credentials result then
                            (Return ((chat_response (message result))
                               \<lparr>requiresCredentials := Some True\<rparr>), s')
                          else if \<not> success result then
                            (Return ((chat_response (message result))
                               \<lparr>actions_taken := actions\<rparr>), s')
                          else
                            (case json_dumps L (data result) of
                               Inl m \<Rightarrow> (execution_failed (LibError m), s')
                             | Inr text \<Rightarrow>
                                 (Next
                                    (actions @ [''Successfully executed '' @ function_name],
                                     (if function_name \<in> set aws_operations then
                                        resources @
                                          [(function_name,
                                            filter (\<lambda>(k, v). k \<noteq> ''credentials'')
                                              (fst arguments))]
                                      else resources),
                                     conversation @ [assistant_record tc, tool_record tc text]),
                                  s')))))))))"

fun tool_calls_loop ::
  "'x pylib \<Rightarrow> ('w, 'x) boto \<Rightarrow> AWSCredentials option \<Rightarrow> tool_call list \<Rightarrow> loop_state \<Rightarrow> 'w st \<Rightarrow>
     outcome \<times> 'w st" where
  "tool_calls_loop L B aws_credentials [] acc s = (Next acc, s)"
| "tool_calls_loop L B aws_credentials (tc # rest) acc s =
     (case handle_tool_call L B aws_credentials tc acc s of
        (Next acc', s') \<Rightarrow> tool_calls_loop L B aws_credentials rest acc' s'
      | (out, s') \<Rightarrow> (out, s'))"

definition to_openai :: "Message \<Rightarrow> openai_message" where
  "to_openai msg =
     \<lparr>m_role = role_value (role msg), m_content = Some (content msg), m_tool_call_id = None,
      m_name = None, m_tool_calls = []\<rparr>"

text \<open>
  The last step: \<^verbatim>\<open>ChatResponse(response=content, ...)\<close>, which pydantic refuses when
  \<^verbatim>\<open>content\<close> is \<^verbatim>\<open>None\<close>.
\<close>

definition final_response ::
  "'x pylib \<Rightarrow> string option \<Rightarrow> string list \<Rightarrow> (string \<times> (string \<times> string) list) list \<Rightarrow>
     pyexc + ChatResponse" where
  "final_response L content_opt actions resources =
     (case content_opt of
        None \<Rightarrow> Inl (LibError (validation_error L))
      | Some text \<Rightarrow>
          Inr \<lparr>response = text, actions_taken = actions, aws_resources_affected = resources,
               validation_results = None, requiresCredentials = Some False, error = None\<rparr>)"

definition process_request_try ::
  "'x pylib \<Rightarrow> ('w, 'x) boto \<Rightarrow> 'w openai \<Rightarrow> Message list \<Rightarrow> AWSCredentials option \<Rightarrow> 'w st \<Rightarrow>
     (pyexc + ChatResponse) \<times> 'w st" where
  "process_request_try L B M messages aws_credentials s =
     (let openai_messages = map to_openai messages in
      case create_completion M openai_messages True s of
        (Inl e, s1) \<Rightarrow> (Inl e, s1)
      | (Inr reply, s1) \<Rightarrow>
          if reply_tool_calls reply \<noteq> [] then
            (case tool_calls_loop L B aws_credentials (reply_tool_calls reply)
                    ([], [], openai_messages) s1 of
               (Return r, s2) \<Rightarrow> (Inr r, s2)
             | (Raise e, s2) \<Rightarrow> (Inl e, s2)
             | (Next (actions, resources, conversation), s2) \<Rightarrow>
                 (case create_completion M conversation False s2 of
                    (Inl e, s3) \<Rightarrow> (Inl e, s3)
                  | (Inr final, s3) \<Rightarrow>
                      (final_response L (reply_content final) actions resources, s3)))
          else (final_response L (reply_content reply) [] [], s1))"

definition process_request ::
  "'x pylib \<Rightarrow> ('w, 'x) boto \<Rightarrow> 'w openai \<Rightarrow> Message list \<Rightarrow> AWSCredentials option \<Rightarrow> 'w st \<Rightarrow>
     (pyexc + ChatResponse) \<times> 'w st" where
  "process_request L B M messages aws_credentials s =
     (case process_request_try L B M messages aws_credentials s of
        (Inl e, s') \<Rightarrow> (Inl (PyException (''Error in process_request: '' @ str_exc e)), s')
      | (Inr r, s') \<Rightarrow> (Inr r, s'))"

section \<open>Policy Reviewer (\<^verbatim>\<open>app/agents/bedrock_agent.py\<close>)\<close>

text \<open>
  \<^verbatim>\<open>class BedrockAgent\<close>: \<^verbatim>\<open>self.session\<close> (a session is identified by the credentials it
  was built from; \<^verbatim>\<open>None\<close> until \<^verbatim>\<open>_init_session\<close> stores one) and \<^verbatim>\<open>self.model_id\<close>.
\<close>

record BedrockAgent =
  session :: "AWSCredentials option"
  model_id :: string

definition new_agent :: "string \<Rightarrow> BedrockAgent" where
  "new_agent model = \<lparr>session = None, model_id = model\<rparr>"

text \<open>
  What the agent calls outside the source; \<open>'j\<close> is a parsed JSON value.
  \<^item> \<open>new_session_error\<close>, \<open>new_client_error\<close>: the exception of \<^verbatim>\<open>boto3.Session(...)\<close> and of
    \<^verbatim>\<open>session.client(service)\<close>, if they raise;
  \<^item> \<open>get_caller_identity\<close>: the STS request, answering \<^verbatim>\<open>identity['Arn']\<close>;
  \<^item> \<open>invoke_model c model body\<close>: the Bedrock request, answering \<^verbatim>\<open>response['body'].read()\<close>;
  \<^item> \<open>dumps_request prompt\<close>: \<^verbatim>\<open>json.dumps(request)\<close> of the envelope built around the prompt;
  \<^item> \<open>loads_body\<close>: \<^verbatim>\<open>json.loads\<close> of the body and \<^verbatim>\<open>.get('completion', '')\<close> on it:
    \<open>BodyDecodeError\<close> for \<^verbatim>\<open>JSONDecodeError\<close> or \<^verbatim>\<open>KeyError\<close>, \<open>BodyOtherError\<close> for another
    exception, \<open>BodyCompletion\<close> the completion text;
  \<^item> \<open>json_loads\<close>: \<^verbatim>\<open>json.loads\<close> of the model's reply (\<open>Inl m\<close> for \<^verbatim>\<open>JSONDecodeError\<close>);
  \<^item> \<open>dumps_operation\<close>: \<^verbatim>\<open>json.dumps(operation, indent=2)\<close> (\<open>Inl m\<close> when it raises);
  \<^item> \<open>has_is_valid v\<close>: \<^verbatim>\<open>isinstance(v, dict) and 'is_valid' in v\<close>.
\<close>

datatype body = BodyDecodeError string | BodyOtherError string | BodyCompletion string

record ('w, 'j) bedrock =
  new_session_error :: "AWSCredentials \<Rightarrow> string option"
  new_client_error :: "AWSCredentials \<Rightarrow> string \<Rightarrow> pyexc option"
  get_caller_identity :: "AWSCredentials \<Rightarrow> 'w \<Rightarrow> (pyexc + string) \<times> 'w"
  invoke_model :: "AWSCredentials \<Rightarrow> string \<Rightarrow> string \<Rightarrow> 'w \<Rightarrow> (pyexc + string) \<times> 'w"
  dumps_request :: "string \<Rightarrow> string"
  loads_body :: "string \<Rightarrow> body"
  json_loads :: "string \<Rightarrow> string + 'j"
  dumps_operation :: "'j \<Rightarrow> string + string"
  has_is_valid :: "'j \<Rightarrow> bool"

text \<open>\<^verbatim>\<open>_init_session\<close>: the error text it returns, and the agent with the session stored.\<close>

definition bedrock_init_session ::
  "('w, 'j) bedrock \<Rightarrow> BedrockAgent \<Rightarrow> AWSCredentials option \<Rightarrow> string option \<times> BedrockAgent" where
  "bedrock_init_session X agent credentials =
     (case credentials of
        Some c \<Rightarrow>
          (case new_session_error X c of
             None \<Rightarrow> (None, agent\<lparr>session := Some c\<rparr>)
           | Some e \<Rightarrow> (Some e, agent))
      | None \<Rightarrow> (Some ''AWS credentials are required for this operation'', agent))"

definition none_has_no_client :: pyexc where
  "none_has_no_client =
     LibError (quoted ''NoneType'' @ '' object has no attribute '' @ quoted ''client'')"

text \<open>\<^verbatim>\<open>self.session.client(service)\<close> on the session the agent holds.\<close>

definition session_client ::
  "('w, 'j) bedrock \<Rightarrow> BedrockAgent \<Rightarrow> string \<Rightarrow> pyexc + AWSCredentials" where
  "session_client X agent service =
     (case session agent of
        None \<Rightarrow> Inl none_has_no_client
      | Some c \<Rightarrow>
          (case new_client_error X c service of
             Some e \<Rightarrow> Inl e
           | None \<Rightarrow> Inr c))"

definition get_bedrock_client ::
  "('w, 'j) bedrock \<Rightarrow> BedrockAgent \<Rightarrow> AWSCredentials option \<Rightarrow>
     (pyexc + AWSCredentials) \<times> BedrockAgent" where
  "get_bedrock_client X agent credentials =
     (case bedrock_init_session X agent credentials of
        (Some error_text, agent') \<Rightarrow> (Inl (PyException error_text), agent')
      | (None, agent') \<Rightarrow> (session_client X agent' ''bedrock-runtime'', agent'))"

definition human_prompt :: "string \<Rightarrow> string" where
  "human_prompt prompt =
     [CHR 0x0A, CHR 0x0A] @ ''Human: '' @ prompt @ [CHR 0x0A, CHR 0x0A] @ ''Assistant:''"

text \<open>The first \<^verbatim>\<open>try\<close> of \<^verbatim>\<open>_invoke_bedrock\<close>, with its two handlers.\<close>

definition bedrock_request ::
  "('w, 'j) bedrock \<Rightarrow> BedrockAgent \<Rightarrow> string \<Rightarrow> AWSCredentials option \<Rightarrow> 'w st \<Rightarrow>
     (pyexc + string) \<times> BedrockAgent \<times> 'w st" where
  "bedrock_request X agent prompt credentials s =
     (case get_bedrock_client X agent credentials of
        (client, agent') \<Rightarrow>
          (case (case client of
                   Inl e \<Rightarrow> (Inl e, s)
                 | Inr c \<Rightarrow>
                     (case invoke_model X c (model_id agent') (dumps_request X (human_prompt prompt))
                             (world s) of
                        (r, w) \<Rightarrow> (r, s\<lparr>world := w, trace := trace s @ [Invoke prompt]\<rparr>))) of
             (Inl (ClientError error_code text), s') \<Rightarrow>
               (if error_code = ''AccessDeniedException'' then
                  Inl (PyException ''Access denied to AWS Bedrock. Please check your IAM permissions.'')
                else if error_code = ''ValidationException'' then
                  Inl (PyException (''Invalid request to Bedrock: '' @ text))
                else if error_code = ''ThrottlingException'' then
                  Inl (PyException ''AWS Bedrock request was throttled. Please try again later.'')
                else Inl (PyException (''AWS Bedrock error: '' @ text)), agent', s')
           | (Inl (BotoCoreError text), s') \<Rightarrow>
               (Inl (PyException (''AWS Bedrock connection error: '' @ text)), agent', s')
           | (r, s') \<Rightarrow> (r, agent', s')))"

definition invoke_bedrock ::
  "('w, 'j) bedrock \<Rightarrow> BedrockAgent \<Rightarrow> string \<Rightarrow> AWSCredentials option \<Rightarrow> 'w st \<Rightarrow>
     (pyexc + string) \<times> BedrockAgent \<times> 'w st" where
  "invoke_bedrock X agent prompt credentials s =
     (case bedrock_request X agent prompt credentials s of
        (r, agent', s') \<Rightarrow>
          (case (case r of
                   Inl e \<Rightarrow> Inl e
                 | Inr response_body \<Rightarrow>
                     (case loads_body X response_body of
                        BodyDecodeError m \<Rightarrow>
                          Inl (PyException (''Failed to parse Bedrock response: '' @ m))
                      | BodyOtherError m \<Rightarrow> Inl (LibError m)
                      | BodyCompletion completion \<Rightarrow>
                          (if completion = [] then Inl (PyException ''Empty response from Bedrock'')
                           else Inr completion))) of
             Inl e \<Rightarrow> (Inl (PyException (''Error in _invoke_bedrock: '' @ str_exc e)), agent', s')
           | Inr completion \<Rightarrow> (Inr completion, agent', s')))"

definition join_lines :: "string list \<Rightarrow> string" where
  "join_lines ls = concat (map (\<lambda>l. l @ [CHR 0x0A]) ls)"

definition dq :: "string \<Rightarrow> string" where
  "dq v = [CHR 0x22] @ v @ [CHR 0x22]"




text \<open>The verdict dictionary, with \<^verbatim>\<open>parameter_validation\<close> flattened.\<close>

record verdict =
  is_valid :: bool
  security_concerns :: "string list"
  best_practice_suggestions :: "string list"
  valid_parameters :: "string list"
  invalid_parameters :: "string list"
  missing_parameters :: "string list"
  recommendation :: string

datatype 'j validation = Fixed verdict | FromModel 'j

definition invalid_credentials_verdict :: "pyexc \<Rightarrow> verdict" where
  "invalid_credentials_verdict e =
     \<lparr>is_valid = False,
      security_concerns = [''Unable to validate AWS credentials''],
      best_practice_suggestions =
        [''Ensure the provided credentials are valid'',
         ''Ensure the credentials have sufficient permissions''],
      valid_parameters = [],
      invalid_parameters = [''credentials''],
      missing_parameters = [],
      recommendation = ''Please provide valid AWS credentials. Error: '' @ str_exc e\<rparr>"

definition validation_prompt :: "string \<Rightarrow> string" where
  "validation_prompt operation_json =
     join_lines
       [[],
        ''            Please analyze this AWS operation for potential security issues, best practices, and validate its parameters:'',
        [],
        ''            Operation: '' @ operation_json,
        [],
        ''            Provide your analysis in the following JSON format:'',
        ''            {'',
        ''                '' @ dq ''is_valid'' @ '': boolean,'',
        ''                '' @ dq ''security_concerns'' @ '': [list of strings],'',
        ''                '' @ dq ''best_practice_suggestions'' @ '': [list of strings],'',
        ''                '' @ dq ''parameter_validation'' @ '': {'',
        ''                    '' @ dq ''valid_parameters'' @ '': [list of strings],'',
        ''                    '' @ dq ''invalid_parameters'' @ '': [list of strings],'',
        ''                    '' @ dq ''missing_parameters'' @ '': [list of strings]'',
        ''                },'',
        ''                '' @ dq ''recommendation'' @ '': '' @ dq ''string'',
        ''            }'',
        ''            '',
        ''            Consider these security aspects:'',
        ''            1. Principle of least privilege'',
        ''            2. Resource naming conventions'',
        ''            3. Access control settings'',
        ''            4. Data security implications'',
        ''            5. Cost implications'']
     @ ''            ''"

text \<open>
  The identity check of \<^verbatim>\<open>validate_aws_operation\<close>: \<^verbatim>\<open>self.session.client('sts')\<close> and
  \<^verbatim>\<open>sts.get_caller_identity()\<close>, on the session the agent holds when the check runs.
\<close>

definition identity_check ::
  "('w, 'j) bedrock \<Rightarrow> BedrockAgent \<Rightarrow> 'w st \<Rightarrow> (pyexc + string) \<times> 'w st" where
  "identity_check X agent s =
     (case session_client X agent ''sts'' of
        Inl e \<Rightarrow> (Inl e, s)
      | Inr sts \<Rightarrow> api ''sts.get_caller_identity'' (get_caller_identity X sts) s)"

definition validate_aws_operation ::
  "('w, 'j) bedrock \<Rightarrow> BedrockAgent \<Rightarrow> 'j \<Rightarrow> AWSCredentials option \<Rightarrow> 'w st \<Rightarrow>
     (pyexc + 'j validation) \<times> BedrockAgent \<times> 'w st" where
  "validate_aws_operation X agent operation credentials s =
     (case (if credentials \<noteq> None then identity_check X agent s else (Inr [], s)) of
        (Inl e, s') \<Rightarrow> (Inr (Fixed (invalid_credentials_verdict e)), agent, s')
      | (Inr arn, s') \<Rightarrow>
          (case dumps_operation X operation of
             Inl m \<Rightarrow> (Inl (LibError m), agent, s')
           | Inr operation_json \<Rightarrow>
               (case invoke_bedrock X agent (validation_prompt operation_json) credentials s' of
                  (Inl e, agent', s'') \<Rightarrow> (Inl e, agent', s'')
                | (Inr reply, agent', s'') \<Rightarrow>
                    (case json_loads X reply of
                       Inl m \<Rightarrow> (Inl (LibError m), agent', s'')
                     | Inr validation_result \<Rightarrow>
                         (if \<not> has_is_valid X validation_result then
                            (Inl (PyException ''Invalid validation response format''), agent', s'')
                          else (Inr (FromModel validation_result), agent', s''))))))"

section \<open>The chat endpoint (\<^verbatim>\<open>app/main.py\<close>)\<close>

text \<open>
  The environment is \<^verbatim>\<open>os.environ\<close>. The module refuses to start when a required variable
  is missing or empty; \<open>Inl m\<close> is the exception it raises.
\<close>

definition required_env_vars :: "string list" where
  "required_env_vars =
     [''OPENAI_API_KEY'', ''AWS_ACCESS_KEY_ID'', ''AWS_SECRET_ACCESS_KEY'', ''AWS_REGION'']"

definition missing_vars :: "(string \<Rightarrow> string option) \<Rightarrow> string list" where
  "missing_vars environ =
     filter (\<lambda>var. environ var = None \<or> environ var = Some []) required_env_vars"

fun join_comma :: "string list \<Rightarrow> string" where
  "join_comma [] = []"
| "join_comma [v] = v"
| "join_comma (v # w # vs) = v @ '', '' @ join_comma (w # vs)"

definition startup :: "(string \<Rightarrow> string option) \<Rightarrow> string + unit" where
  "startup environ =
     (if missing_vars environ \<noteq> [] then
        Inl (''Missing required environment variables: '' @ join_comma (missing_vars environ))
      else Inr ())"

record ChatRequest =
  messages :: "Message list"
  user_id :: "string option"
  aws_context :: "string option"
  awsCredentials :: "AWSCredentials option"

definition system_message :: Message where
  "system_message =
     \<lparr>role = SYSTEM,
      content = ''You are CloudPilot, an AI assistant specialized in AWS cloud operations. You can help with AWS infrastructure management, security best practices, and resource optimization.''\<rparr>"

text \<open>
  \<^verbatim>\<open>chat\<close>: it puts the system message first when the request has none
  (\<open>with_system_message\<close>) and hands the request's credentials to \<^verbatim>\<open>process_request\<close>.
  \<open>Inl status\<close> is the \<^verbatim>\<open>HTTPException\<close> it raises. Every exception that leaves
  \<^verbatim>\<open>process_request\<close> is a plain \<^verbatim>\<open>Exception\<close>, which none of the handlers for the OpenAI and
  boto3 classes takes; whichever of the two last handlers does, the status is 500. The
  detail text is left out.
\<close>

definition with_system_message :: "Message list \<Rightarrow> Message list" where
  "with_system_message msgs =
     (if \<not> list_ex (\<lambda>msg. role msg = SYSTEM) msgs then system_message # msgs else msgs)"

definition chat ::
  "'x pylib \<Rightarrow> ('w, 'x) boto \<Rightarrow> 'w openai \<Rightarrow> ChatRequest \<Rightarrow> 'w st \<Rightarrow>
     (nat + ChatResponse) \<times> 'w st" where
  "chat L B M request s =
     (case process_request L B M (with_system_message (messages request))
             (awsCredentials request) s of
        (Inr r, s') \<Rightarrow> (Inr r, s')
      | (Inl e, s') \<Rightarrow> (Inl 500, s'))"

section \<open>What a call added to the log\<close>

text \<open>
  \<open>new_events s s'\<close> is what the log gained between two states; \<open>dispatched\<close> the tool
  methods entered, \<open>completions\<close> the requests to the primary model, in order.
\<close>

definition new_events :: "'w st \<Rightarrow> 'w st \<Rightarrow> event list" where
  "new_events s s' = drop (length (trace s)) (trace s')"

definition is_client_error :: "pyexc \<Rightarrow> bool" where
  "is_client_error e = (case e of ClientError code text \<Rightarrow> True | _ \<Rightarrow> False)"

definition credential_error_codes :: "string list" where
  "credential_error_codes = [''InvalidAccessKeyId'', ''SignatureDoesNotMatch'', ''AccessDenied'']"

definition is_api :: "event \<Rightarrow> bool" where
  "is_api ev = (case ev of Api n r \<Rightarrow> True | _ \<Rightarrow> False)"

definition dispatched :: "event list \<Rightarrow> string list" where
  "dispatched evs = concat (map (\<lambda>ev. case ev of Dispatch f \<Rightarrow> [f] | _ \<Rightarrow> []) evs)"

definition completions :: "event list \<Rightarrow> event list" where
  "completions evs = filter (\<lambda>ev. case ev of Completion ms b \<Rightarrow> True | _ \<Rightarrow> False) evs"

section \<open>A small provider, library and model\<close>

text \<open>Concrete collaborators, on which the theorems below are run.\<close>

definition demo_credentials :: AWSCredentials where
  "demo_credentials =
     \<lparr>accessKeyId = ''AKIAEXAMPLE'', secretAccessKey = ''secret'', region = ''ap-south-1''\<rparr>"

definition demo_lib :: "nat pylib" where
  "demo_lib =
     \<lparr>round_mb = (\<lambda>n. n div 1048576),
      sum_mb = sum_list,
      str_mb = str_nat,
      fmt_mb = str_nat,
      json_dumps = (\<lambda>d. case d of
                      BucketSizes bs \<Rightarrow> Inr (''buckets: '' @ join_comma (map fst bs))
                    | _ \<Rightarrow> Inr ''data''),
      loads_arguments = (\<lambda>t. if t = ''{}'' then Inr [] else Inl ''Expecting value''),
      call_error = (\<lambda>f keys. f @ ''() got an unexpected keyword argument''),
      other_attribute = (\<lambda>n. n \<in> set [''session'', ''_init_session'', ''_get_client'']),
      attribute_error = (\<lambda>n keys. ''object is not awaitable''),
      validation_error = ''Input should be a valid string''\<rparr>"

definition access_denied :: pyexc where
  "access_denied = ClientError ''AccessDenied'' ''An error occurred (AccessDenied)''"

definition request_limit :: pyexc where
  "request_limit = ClientError ''RequestLimitExceeded'' ''An error occurred (RequestLimitExceeded)''"

text \<open>
  A provider whose every request is refused, and one with a single bucket \<^verbatim>\<open>logs\<close> of two
  pages, whose EC2 request fails with the given exception.
\<close>

definition denied_boto :: "(unit, nat) boto" where
  "denied_boto =
     \<lparr>Session_error = (\<lambda>c. None),
      client_error = (\<lambda>c service. None),
      list_buckets = (\<lambda>c w. (Inl access_denied, w)),
      paginate = (\<lambda>c bucket w. (([], Some access_denied), w)),
      describe_instances = (\<lambda>c w. (Inl access_denied, w)),
      get_role = (\<lambda>c n w. (Inl access_denied, w)),
      list_attached_role_policies = (\<lambda>c n w. (Inl access_denied, w))\<rparr>"

definition demo_boto :: "pyexc \<Rightarrow> (unit, nat) boto" where
  "demo_boto ec2_failure =
     \<lparr>Session_error = (\<lambda>c. None),
      client_error = (\<lambda>c service. None),
      list_buckets = (\<lambda>c w. (Inr [''logs''], w)),
      paginate = (\<lambda>c bucket w. (([Some [5242880], None], None), w)),
      describe_instances = (\<lambda>c w. (Inl ec2_failure, w)),
      get_role = (\<lambda>c n w. (Inr 0, w)),
      list_attached_role_policies = (\<lambda>c n w. (Inr 0, w))\<rparr>"

text \<open>A primary model that asks for the given tool calls, then answers \<^verbatim>\<open>Done.\<close>\<close>

definition demo_model :: "tool_call list \<Rightarrow> unit openai" where
  "demo_model calls =
     \<lparr>chat_completions_create = (\<lambda>ms with_tools w.
        if with_tools then (Inr \<lparr>reply_content = None, reply_tool_calls = calls\<rparr>, w)
        else (Inr \<lparr>reply_content = Some ''Done.'', reply_tool_calls = []\<rparr>, w))\<rparr>"

definition call_sizes :: tool_call where
  "call_sizes = \<lparr>tc_id = ''call_1'', tc_name = ''get_s3_bucket_sizes'', tc_arguments = ''{}''\<rparr>"

definition call_ec2 :: tool_call where
  "call_ec2 = \<lparr>tc_id = ''call_2'', tc_name = ''list_ec2_instances'', tc_arguments = ''{}''\<rparr>"

definition call_count :: tool_call where
  "call_count = \<lparr>tc_id = ''call_3'', tc_name = ''get_s3_bucket_file_count'', tc_arguments = ''{}''\<rparr>"

definition call_create :: tool_call where
  "call_create = \<lparr>tc_id = ''call_4'', tc_name = ''create_s3_bucket'', tc_arguments = ''{}''\<rparr>"

definition user_message :: Message where
  "user_message = \<lparr>role = USER, content = ''list my buckets''\<rparr>"

definition s0 :: "unit st" where
  "s0 = \<lparr>world = (), trace = []\<rparr>"

definition demo_environ :: "string \<Rightarrow> string option" where
  "demo_environ var =
     (if var = ''OPENAI_API_KEY'' then Some ''sk-example''
      else if var = ''AWS_ACCESS_KEY_ID'' then Some ''AKIADEFAULT''
      else if var = ''AWS_SECRET_ACCESS_KEY'' then Some ''default-secret''
      else if var = ''AWS_REGION'' then Some ''ap-south-1''
      else None)"



lemmas tool_defs =
  get_s3_bucket_sizes_def bucket_sizes_try_def list_ec2_instances_def ec2_instances_try_def
  describe_iam_role_def iam_role_try_def get_s3_bucket_file_count_def file_count_try_def
  get_client_def init_session_def api_def exc_of_def paginate_all_def new_events_def
  no_such_bucket_def

lemmas demo_defs =
  demo_lib_def denied_boto_def demo_boto_def demo_model_def call_sizes_def call_ec2_def
  call_count_def call_create_def user_message_def s0_def access_denied_def request_limit_def
  demo_credentials_def

lemmas orchestrator_defs =
  create_completion_def handle_tool_call_def execute_function_def
  requires_aws_credentials_def aws_operations_def lookup_credentials_def arg_keys_def
  accepts_def dispatch_def to_openai_def Let_def

section \<open>The tool operations\<close>

text \<open>
  C1. Each of the four operations, called with credentials \<^verbatim>\<open>None\<close>, returns
  \<^verbatim>\<open>success=False\<close>, \<^verbatim>\<open>requires_credentials=True\<close> and its own prompt to supply credentials,
  and it returns the state it was given: the world is untouched and the log has no new
  entry, so no request was sent.
\<close>

theorem no_credentials_no_call:
  "get_s3_bucket_sizes L B None s =
     (\<lparr>success = False, data = NoData,
       message = ''To list your S3 buckets and their sizes, I'll need your AWS credentials. Please provide them securely.'',
       requires_credentials = True\<rparr>, s)
   \<and> list_ec2_instances B None s =
     (\<lparr>success = False, data = NoData,
       message = ''To list your EC2 instances, I'll need your AWS credentials. Please provide them securely.'',
       requires_credentials = True\<rparr>, s)
   \<and> describe_iam_role B role_name None s =
     (\<lparr>success = False, data = NoData,
       message = ''To describe the IAM role '' @ quoted role_name @ '', I'll need your AWS credentials. Please provide them securely.'',
       requires_credentials = True\<rparr>, s)
   \<and> get_s3_bucket_file_count L B bucket_name None s =
     (\<lparr>success = False, data = NoData,
       message = ''To count files in your S3 buckets, I'll need your AWS credentials. Please provide them securely.'',
       requires_credentials = True\<rparr>, s)"
  by (simp add: get_s3_bucket_sizes_def list_ec2_instances_def describe_iam_role_def
        get_s3_bucket_file_count_def)

subsection \<open>The flags of a result\<close>

lemma sizes_flags:
  "requires_credentials (fst (get_s3_bucket_sizes L B credentials s))
     \<longrightarrow> \<not> success (fst (get_s3_bucket_sizes L B credentials s))"
  by (simp add: get_s3_bucket_sizes_def split: prod.splits sum.splits pyexc.splits)

lemma ec2_flags:
  "requires_credentials (fst (list_ec2_instances B credentials s))
     \<longrightarrow> \<not> success (fst (list_ec2_instances B credentials s))"
  by (simp add: list_ec2_instances_def split: prod.splits sum.splits pyexc.splits)

lemma iam_flags:
  "requires_credentials (fst (describe_iam_role B role_name credentials s))
     \<longrightarrow> \<not> success (fst (describe_iam_role B role_name credentials s))"
  by (simp add: describe_iam_role_def split: prod.splits sum.splits pyexc.splits)

lemma file_count_loop_early:
  "file_count_loop L B s3 buckets stats s = (Inr (Inl r), s') \<Longrightarrow> \<exists>b. r = no_such_bucket b"
proof (induction buckets arbitrary: stats s)
  case Nil
  then show ?case by simp
next
  case (Cons b bs)
  then show ?case
    by (auto simp: Let_def split: prod.splits sum.splits pyexc.splits if_splits)
qed

lemma file_count_try_flags:
  assumes "file_count_try L B s3 bucket_name s = (Inr r, s')"
  shows "\<not> requires_credentials r"
proof -
  define start where
    "start = (if bucket_name = None \<or> bucket_name = Some []
              then api ''s3.list_buckets'' (list_buckets B s3) s
              else (Inr [str_opt bucket_name], s))"
  obtain p s1 where p: "start = (p, s1)" by (cases start)
  show ?thesis
  proof (cases p)
    case (Inl e)
    with assms p show ?thesis
      by (simp add: file_count_try_def start_def [symmetric])
  next
    case (Inr buckets)
    obtain q s2 where q: "file_count_loop L B s3 buckets [] s1 = (q, s2)"
      by (cases "file_count_loop L B s3 buckets [] s1")
    with assms p Inr show ?thesis
      by (auto simp: file_count_try_def start_def [symmetric] no_such_bucket_def
          split: sum.splits dest!: file_count_loop_early)
  qed
qed

lemma file_count_flags:
  "requires_credentials (fst (get_s3_bucket_file_count L B bucket_name credentials s))
     \<longrightarrow> \<not> success (fst (get_s3_bucket_file_count L B bucket_name credentials s))"
  by (auto simp: get_s3_bucket_file_count_def no_such_bucket_def
      split: prod.splits sum.splits pyexc.splits if_splits dest: file_count_try_flags)

text \<open>
  C9. No result of a tool operation has both flags set: whatever the arguments, the
  credentials and the provider's answers, \<^verbatim>\<open>requires_credentials\<close> implies that \<^verbatim>\<open>success\<close>
  is false.
\<close>

theorem credentials_flag_excludes_success:
  "(requires_credentials (fst (get_s3_bucket_sizes L B credentials s))
      \<longrightarrow> \<not> success (fst (get_s3_bucket_sizes L B credentials s)))
   \<and> (requires_credentials (fst (list_ec2_instances B credentials s))
      \<longrightarrow> \<not> success (fst (list_ec2_instances B credentials s)))
   \<and> (requires_credentials (fst (describe_iam_role B role_name credentials s))
      \<longrightarrow> \<not> success (fst (describe_iam_role B role_name credentials s)))
   \<and> (requires_credentials (fst (get_s3_bucket_file_count L B bucket_name credentials s))
      \<longrightarrow> \<not> success (fst (get_s3_bucket_file_count L B bucket_name credentials s)))"
  by (intro conjI; rule sizes_flags ec2_flags iam_flags file_count_flags)

theorem credentials_flag_excludes_success_witness:
  "requires_credentials (fst (get_s3_bucket_sizes demo_lib denied_boto None s0))
   \<and> \<not> success (fst (get_s3_bucket_sizes demo_lib denied_boto None s0))
   \<and> requires_credentials (fst (list_ec2_instances denied_boto (Some (Cred demo_credentials)) s0))
   \<and> \<not> success (fst (list_ec2_instances denied_boto (Some (Cred demo_credentials)) s0))
   \<and> requires_credentials (fst (describe_iam_role denied_boto ''admin'' None s0))
   \<and> \<not> success (fst (describe_iam_role denied_boto ''admin'' None s0))
   \<and> requires_credentials
       (fst (get_s3_bucket_file_count demo_lib denied_boto None (Some (Cred demo_credentials)) s0))
   \<and> \<not> success
       (fst (get_s3_bucket_file_count demo_lib denied_boto None (Some (Cred demo_credentials)) s0))"
proof -
  have h1: "requires_credentials (fst (get_s3_bucket_sizes demo_lib denied_boto None s0))"
    by (simp add: tool_defs)
  have h2: "requires_credentials
      (fst (list_ec2_instances denied_boto (Some (Cred demo_credentials)) s0))"
    by (simp add: tool_defs demo_defs)
  have h3: "requires_credentials (fst (describe_iam_role denied_boto ''admin'' None s0))"
    by (simp add: tool_defs)
  have h4: "requires_credentials
       (fst (get_s3_bucket_file_count demo_lib denied_boto None (Some (Cred demo_credentials)) s0))"
    by (simp add: tool_defs demo_defs)
  from h1 h2 h3 h4
    credentials_flag_excludes_success [of demo_lib denied_boto None s0]
    credentials_flag_excludes_success [of demo_lib denied_boto "Some (Cred demo_credentials)" s0
      "''admin''" None]
    credentials_flag_excludes_success [of demo_lib denied_boto None s0 "''admin''"]
  show ?thesis by blast
qed

subsection \<open>Exceptions of the provider\<close>

text \<open>
  Every request is logged with the exception it raised. An operation stops at the first
  request that raises, so at most one logged request of a call carries an exception, and
  the result is the one its handler builds.
\<close>

lemma new_events_append: "trace s' = trace s @ evs \<Longrightarrow> new_events s s' = evs"
  by (simp add: new_events_def)

lemma new_events_same [simp]: "new_events s s = []"
  by (simp add: new_events_def)

lemma raised_append [simp]: "raised (a @ b) = raised a @ raised b"
  by (simp add: raised_def)

lemma raised_Nil [simp]: "raised [] = []"
  by (simp add: raised_def)

lemma raised_Cons [simp]:
  "raised (Api n x # evs) = (case x of None \<Rightarrow> [] | Some e \<Rightarrow> [e]) @ raised evs"
  "raised (Dispatch f # evs) = raised evs"
  "raised (Completion ms b # evs) = raised evs"
  "raised (Invoke q # evs) = raised evs"
  by (simp_all add: raised_def split: option.splits)

lemma raised_fetched [simp]: "raised (map (\<lambda>p. Api n None) pages) = []"
  by (induction pages) simp_all

lemma api_trace: "api n f s = (r, s') \<Longrightarrow> trace s' = trace s @ [Api n (exc_of r)]"
  by (auto simp: api_def split: prod.splits)

lemma paginate_all_trace:
  "paginate_all B c b s = (r, s') \<Longrightarrow>
   \<exists>evs. trace s' = trace s @ evs \<and> raised evs = (case r of Inl e \<Rightarrow> [e] | Inr v \<Rightarrow> [])"
  by (auto simp: paginate_all_def Let_def split: prod.splits option.splits)

lemma bucket_sizes_loop_trace:
  "bucket_sizes_loop L B c bs acc s = (r, s') \<Longrightarrow>
   \<exists>evs. trace s' = trace s @ evs \<and> raised evs = (case r of Inl e \<Rightarrow> [e] | Inr v \<Rightarrow> [])"
proof (induction bs arbitrary: acc s)
  case Nil
  then show ?case by auto
next
  case (Cons b bs)
  obtain p s1 where p: "paginate_all B c b s = (p, s1)" by (cases "paginate_all B c b s")
  from paginate_all_trace [OF p] obtain e1 where
    e1: "trace s1 = trace s @ e1" "raised e1 = (case p of Inl e \<Rightarrow> [e] | Inr v \<Rightarrow> [])" by blast
  show ?case
  proof (cases p)
    case (Inl e)
    with Cons.prems p e1 show ?thesis by auto
  next
    case (Inr pages)
    with Cons.prems p have
      "bucket_sizes_loop L B c bs
         (acc @ [(b, sum_list (map page_size pages), round_mb L (sum_list (map page_size pages)))]) s1 = (r, s')"
      by (simp add: Let_def)
    from Cons.IH [OF this] obtain e2 where
      "trace s' = trace s1 @ e2" "raised e2 = (case r of Inl e \<Rightarrow> [e] | Inr v \<Rightarrow> [])" by blast
    with e1 Inr show ?thesis by (intro exI [of _ "e1 @ e2"]) simp
  qed
qed

lemma get_client_not_client_error: "get_client B svc cr = Inl e \<Longrightarrow> \<not> is_client_error e"
  by (auto simp: get_client_def is_client_error_def split: prod.splits option.splits)

lemma bucket_sizes_try_trace:
  assumes a: "bucket_sizes_try L B cr s = (r, s')"
  shows "\<exists>evs. trace s' = trace s @ evs \<and>
     (case r of Inl e \<Rightarrow> raised evs = [e] \<or> (raised evs = [] \<and> \<not> is_client_error e)
              | Inr v \<Rightarrow> raised evs = [])"
proof (cases "get_client B ''s3'' cr")
  case (Inl e)
  with a get_client_not_client_error [OF Inl] show ?thesis
    by (auto simp: bucket_sizes_try_def)
next
  case (Inr s3)
  obtain p s1 where p: "api ''s3.list_buckets'' (list_buckets B s3) s = (p, s1)"
    by (cases "api ''s3.list_buckets'' (list_buckets B s3) s")
  note t1 = api_trace [OF p]
  show ?thesis
  proof (cases p)
    case (Inl e)
    with a Inr p t1 show ?thesis
      by (auto simp: bucket_sizes_try_def exc_of_def)
  next
    case names: (Inr names)
    with a Inr p have "bucket_sizes_loop L B s3 names [] s1 = (r, s')"
      by (simp add: bucket_sizes_try_def)
    from bucket_sizes_loop_trace [OF this] obtain e2 where
      "trace s' = trace s1 @ e2" "raised e2 = (case r of Inl e \<Rightarrow> [e] | Inr v \<Rightarrow> [])" by blast
    with t1 names show ?thesis
      by (intro exI [of _ "[Api ''s3.list_buckets'' None] @ e2"])
         (auto simp: exc_of_def split: sum.splits)
  qed
qed

lemma ec2_instances_try_trace:
  assumes a: "ec2_instances_try B cr s = (r, s')"
  shows "\<exists>evs. trace s' = trace s @ evs \<and>
     (case r of Inl e \<Rightarrow> raised evs = [e] \<or> (raised evs = [] \<and> \<not> is_client_error e)
              | Inr v \<Rightarrow> raised evs = [])"
proof (cases "get_client B ''ec2'' cr")
  case (Inl e)
  with a get_client_not_client_error [OF Inl] show ?thesis
    by (auto simp: ec2_instances_try_def)
next
  case (Inr ec2)
  obtain p s1 where p: "api ''ec2.describe_instances'' (describe_instances B ec2) s = (p, s1)"
    by (cases "api ''ec2.describe_instances'' (describe_instances B ec2) s")
  note t1 = api_trace [OF p]
  from a Inr p t1 show ?thesis
    by (cases p) (auto simp: ec2_instances_try_def exc_of_def)
qed

lemma iam_role_try_trace:
  assumes a: "iam_role_try B role_name cr s = (r, s')"
  shows "\<exists>evs. trace s' = trace s @ evs \<and>
     (case r of Inl e \<Rightarrow> raised evs = [e] \<or> (raised evs = [] \<and> \<not> is_client_error e)
              | Inr v \<Rightarrow> raised evs = [])"
proof (cases "get_client B ''iam'' cr")
  case (Inl e)
  with a get_client_not_client_error [OF Inl] show ?thesis
    by (auto simp: iam_role_try_def)
next
  case (Inr iam)
  obtain p s1 where p: "api ''iam.get_role'' (get_role B iam role_name) s = (p, s1)"
    by (cases "api ''iam.get_role'' (get_role B iam role_name) s")
  note t1 = api_trace [OF p]
  show ?thesis
  proof (cases p)
    case (Inl e)
    with a Inr p t1 show ?thesis
      by (auto simp: iam_role_try_def exc_of_def)
  next
    case role: (Inr role_dict)
    obtain q s2 where q: "api ''iam.list_attached_role_policies''
        (list_attached_role_policies B iam role_name) s1 = (q, s2)"
      by (cases "api ''iam.list_attached_role_policies''
        (list_attached_role_policies B iam role_name) s1")
    note t2 = api_trace [OF q]
    from a Inr p role q t1 t2 show ?thesis
      by (cases q) (auto simp: iam_role_try_def exc_of_def)
  qed
qed

lemma file_count_loop_trace:
  "file_count_loop L B c bs acc s = (r, s') \<Longrightarrow>
   \<exists>evs. trace s' = trace s @ evs \<and>
     (case r of
        Inl e \<Rightarrow> raised evs = [e] \<and> (\<forall>t. e \<noteq> ClientError ''NoSuchBucket'' t)
      | Inr (Inl resp) \<Rightarrow>
          \<exists>b t. raised evs = [ClientError ''NoSuchBucket'' t] \<and> resp = no_such_bucket b
      | Inr (Inr v) \<Rightarrow> raised evs = [])"
proof (induction bs arbitrary: acc s)
  case Nil
  then show ?case by auto
next
  case (Cons b bs)
  obtain p s1 where p: "paginate_all B c b s = (p, s1)" by (cases "paginate_all B c b s")
  from paginate_all_trace [OF p] obtain e1 where
    e1: "trace s1 = trace s @ e1" "raised e1 = (case p of Inl e \<Rightarrow> [e] | Inr v \<Rightarrow> [])" by blast
  show ?case
  proof (cases p)
    case (Inl e)
    with Cons.prems p e1 show ?thesis
      by (cases e) (auto split: if_splits)
  next
    case (Inr pages)
    with Cons.prems p have
      "file_count_loop L B c bs
         (acc @ [(b, sum_list (map page_count pages), sum_list (map page_size pages),
                  round_mb L (sum_list (map page_size pages)))]) s1 = (r, s')"
      by (simp add: Let_def)
    from Cons.IH [OF this] obtain e2 where
      "trace s' = trace s1 @ e2"
      "(case r of
        Inl e \<Rightarrow> raised e2 = [e] \<and> (\<forall>t. e \<noteq> ClientError ''NoSuchBucket'' t)
      | Inr (Inl resp) \<Rightarrow>
          \<exists>b t. raised e2 = [ClientError ''NoSuchBucket'' t] \<and> resp = no_such_bucket b
      | Inr (Inr v) \<Rightarrow> raised e2 = [])" by blast
    with e1 Inr show ?thesis by (intro exI [of _ "e1 @ e2"]) (auto split: sum.splits)
  qed
qed

lemma file_count_try_trace:
  assumes a: "file_count_try L B c bucket_name s = (r, s')"
  shows "\<exists>evs. trace s' = trace s @ evs \<and>
     (case r of
        Inl e \<Rightarrow> raised evs = [e]
      | Inr resp \<Rightarrow>
          (raised evs = [] \<and> \<not> requires_credentials resp) \<or>
          (\<exists>b t. raised evs = [ClientError ''NoSuchBucket'' t] \<and> resp = no_such_bucket b))"
proof -
  define start where
    "start = (if bucket_name = None \<or> bucket_name = Some []
              then api ''s3.list_buckets'' (list_buckets B c) s
              else (Inr [str_opt bucket_name], s))"
  obtain p s1 where p: "start = (p, s1)" by (cases start)
  have t1: "\<exists>evs. trace s1 = trace s @ evs \<and> raised evs = (case p of Inl e \<Rightarrow> [e] | Inr v \<Rightarrow> [])"
  proof (cases "bucket_name = None \<or> bucket_name = Some []")
    case True
    with p have "api ''s3.list_buckets'' (list_buckets B c) s = (p, s1)"
      by (simp add: start_def)
    from api_trace [OF this] show ?thesis
      by (auto simp: exc_of_def split: sum.splits)
  next
    case False
    with p show ?thesis by (auto simp: start_def)
  qed
  then obtain e1 where
    e1: "trace s1 = trace s @ e1" "raised e1 = (case p of Inl e \<Rightarrow> [e] | Inr v \<Rightarrow> [])" by blast
  show ?thesis
  proof (cases p)
    case (Inl e)
    with a p e1 show ?thesis
      by (auto simp: file_count_try_def start_def [symmetric])
  next
    case (Inr buckets)
    obtain q s2 where q: "file_count_loop L B c buckets [] s1 = (q, s2)"
      by (cases "file_count_loop L B c buckets [] s1")
    from file_count_loop_trace [OF q] obtain e2 where
      e2: "trace s2 = trace s1 @ e2"
      "(case q of
        Inl e \<Rightarrow> raised e2 = [e] \<and> (\<forall>t. e \<noteq> ClientError ''NoSuchBucket'' t)
      | Inr (Inl resp) \<Rightarrow>
          \<exists>b t. raised e2 = [ClientError ''NoSuchBucket'' t] \<and> resp = no_such_bucket b
      | Inr (Inr v) \<Rightarrow> raised e2 = [])" by blast
    from a p Inr q have r: "(r, s') = (case q of Inl e \<Rightarrow> (Inl e, s2)
        | Inr (Inl resp) \<Rightarrow> (Inr resp, s2)
        | Inr (Inr bucket_stats) \<Rightarrow>
               (Inr \<lparr>success = True, data = BucketStats bucket_stats,
                     message = file_count_message L bucket_stats,
                     requires_credentials = False\<rparr>, s2))"
      by (simp add: file_count_try_def start_def [symmetric] split: sum.splits)
    with e1 e2 Inr show ?thesis
      by (intro exI [of _ "e1 @ e2"]) (auto split: sum.splits)
  qed
qed

lemma sizes_client_error:
  assumes h: "ClientError code text
      \<in> set (raised (new_events s (snd (get_s3_bucket_sizes L B credentials s))))"
  shows "fst (get_s3_bucket_sizes L B credentials s) =
     \<lparr>success = False, data = NoData,
      message =
        (if code = ''InvalidAccessKeyId'' then
           ''The AWS Access Key ID you provided is invalid. Please check your credentials.''
         else if code = ''SignatureDoesNotMatch'' then
           ''The AWS Secret Access Key you provided is invalid. Please check your credentials.''
         else if code = ''AccessDenied'' then
           ''Your AWS credentials don't have permission to list S3 buckets. Please check your IAM permissions.''
         else ''AWS error: '' @ text),
      requires_credentials = (code \<in> set credential_error_codes)\<rparr>"
proof -
  have pc: "present credentials"
    using h by (cases "present credentials") (simp_all add: get_s3_bucket_sizes_def)
  obtain r s' where t: "bucket_sizes_try L B credentials s = (r, s')"
    by (cases "bucket_sizes_try L B credentials s")
  have s': "snd (get_s3_bucket_sizes L B credentials s) = s'"
    using pc t by (simp add: get_s3_bucket_sizes_def split: sum.splits pyexc.splits)
  from bucket_sizes_try_trace [OF t] obtain evs where
    evs: "trace s' = trace s @ evs"
      "(case r of Inl e \<Rightarrow> raised evs = [e] \<or> (raised evs = [] \<and> \<not> is_client_error e)
              | Inr v \<Rightarrow> raised evs = [])" by blast
  from h s' evs(1) have "ClientError code text \<in> set (raised evs)"
    by (simp add: new_events_append)
  with evs(2) have "r = Inl (ClientError code text)"
    by (cases r) auto
  with pc t show ?thesis
    by (simp add: get_s3_bucket_sizes_def credential_error_codes_def)
qed

lemma ec2_client_error:
  assumes h: "ClientError code text
      \<in> set (raised (new_events s (snd (list_ec2_instances B credentials s))))"
  shows "fst (list_ec2_instances B credentials s) =
     \<lparr>success = False, data = NoData,
      message =
        (if code = ''InvalidAccessKeyId'' \<or> code = ''SignatureDoesNotMatch'' then
           ''Invalid AWS credentials provided. Please check your Access Key ID and Secret Access Key.''
         else if code = ''AccessDenied'' then
           ''Your AWS credentials don't have permission to list EC2 instances. Please check your IAM permissions.''
         else ''AWS error: '' @ text),
      requires_credentials = (code \<in> set credential_error_codes)\<rparr>"
proof -
  have pc: "present credentials"
    using h by (cases "present credentials") (simp_all add: list_ec2_instances_def)
  obtain r s' where t: "ec2_instances_try B credentials s = (r, s')"
    by (cases "ec2_instances_try B credentials s")
  have s': "snd (list_ec2_instances B credentials s) = s'"
    using pc t by (simp add: list_ec2_instances_def split: sum.splits pyexc.splits)
  from ec2_instances_try_trace [OF t] obtain evs where
    evs: "trace s' = trace s @ evs"
      "(case r of Inl e \<Rightarrow> raised evs = [e] \<or> (raised evs = [] \<and> \<not> is_client_error e)
              | Inr v \<Rightarrow> raised evs = [])" by blast
  from h s' evs(1) have "ClientError code text \<in> set (raised evs)"
    by (simp add: new_events_append)
  with evs(2) have "r = Inl (ClientError code text)"
    by (cases r) auto
  with pc t show ?thesis
    by (simp add: list_ec2_instances_def credential_error_codes_def
          invalid_credentials_message_def)
qed

lemma iam_client_error:
  assumes h: "ClientError code text
      \<in> set (raised (new_events s (snd (describe_iam_role B role_name credentials s))))"
  shows "fst (describe_iam_role B role_name credentials s) =
     \<lparr>success = False, data = NoData,
      message =
        (if code = ''InvalidAccessKeyId'' \<or> code = ''SignatureDoesNotMatch'' then
           ''Invalid AWS credentials provided. Please check your Access Key ID and Secret Access Key.''
         else if code = ''AccessDenied'' then
           ''Your AWS credentials don't have permission to access IAM roles. Please check your IAM permissions.''
         else ''AWS error: '' @ text),
      requires_credentials = (code \<in> set credential_error_codes)\<rparr>"
proof -
  have pc: "present credentials"
    using h by (cases "present credentials") (simp_all add: describe_iam_role_def)
  obtain r s' where t: "iam_role_try B role_name credentials s = (r, s')"
    by (cases "iam_role_try B role_name credentials s")
  have s': "snd (describe_iam_role B role_name credentials s) = s'"
    using pc t by (simp add: describe_iam_role_def split: sum.splits pyexc.splits prod.splits)
  from iam_role_try_trace [OF t] obtain evs where
    evs: "trace s' = trace s @ evs"
      "(case r of Inl e \<Rightarrow> raised evs = [e] \<or> (raised evs = [] \<and> \<not> is_client_error e)
              | Inr v \<Rightarrow> raised evs = [])" by blast
  from h s' evs(1) have "ClientError code text \<in> set (raised evs)"
    by (simp add: new_events_append)
  with evs(2) have "r = Inl (ClientError code text)"
    by (cases r) auto
  with pc t show ?thesis
    by (simp add: describe_iam_role_def credential_error_codes_def
          invalid_credentials_message_def)
qed

lemma file_count_client_error:
  assumes h: "ClientError code text
      \<in> set (raised (new_events s (snd (get_s3_bucket_file_count L B bucket_name credentials s))))"
  shows "\<exists>bucket. fst (get_s3_bucket_file_count L B bucket_name credentials s) =
     \<lparr>success = False, data = NoData,
      message =
        (if code = ''NoSuchBucket'' then
           ''The specified bucket '' @ quoted bucket @ '' does not exist''
         else if code = ''InvalidAccessKeyId'' \<or> code = ''SignatureDoesNotMatch'' then
           ''Invalid AWS credentials provided. Please check your Access Key ID and Secret Access Key.''
         else if code = ''AccessDenied'' then
           ''Your AWS credentials don't have permission to list objects in S3 buckets. Please check your IAM permissions.''
         else ''AWS error: '' @ text),
      requires_credentials = (code \<in> set credential_error_codes)\<rparr>"
proof -
  have pc: "present credentials"
    using h by (cases "present credentials") (simp_all add: get_s3_bucket_file_count_def)
  show ?thesis
  proof (cases "get_client B ''s3'' credentials")
    case (Inl e)
    with pc h show ?thesis by (simp add: get_s3_bucket_file_count_def)
  next
    case (Inr s3)
    obtain r s' where t: "file_count_try L B s3 bucket_name s = (r, s')"
      by (cases "file_count_try L B s3 bucket_name s")
    have s': "snd (get_s3_bucket_file_count L B bucket_name credentials s) = s'"
      using pc t Inr
      by (simp add: get_s3_bucket_file_count_def split: sum.splits pyexc.splits)
    from file_count_try_trace [OF t] obtain evs where
      evs: "trace s' = trace s @ evs"
        "(case r of
            Inl e \<Rightarrow> raised evs = [e]
          | Inr resp \<Rightarrow>
              (raised evs = [] \<and> \<not> requires_credentials resp) \<or>
              (\<exists>b t. raised evs = [ClientError ''NoSuchBucket'' t] \<and> resp = no_such_bucket b))"
      by blast
    from h s' evs(1) have m: "ClientError code text \<in> set (raised evs)"
      by (simp add: new_events_append)
    show ?thesis
    proof (cases r)
      case e: (Inl e)
      with evs(2) m have "r = Inl (ClientError code text)" by auto
      with pc t Inr show ?thesis
        by (intro exI [of _ "str_opt bucket_name"])
           (simp add: get_s3_bucket_file_count_def credential_error_codes_def
              invalid_credentials_message_def no_such_bucket_def)
    next
      case resp: (Inr resp)
      with evs(2) m obtain b where "code = ''NoSuchBucket''" "resp = no_such_bucket b"
        by auto
      with pc t Inr resp show ?thesis
        by (intro exI [of _ b])
           (simp add: get_s3_bucket_file_count_def credential_error_codes_def
              no_such_bucket_def)
    qed
  qed
qed

text \<open>
  C3. When a request of the provider raises a \<^verbatim>\<open>ClientError\<close> with code \<open>code\<close> and text
  \<open>text\<close> during a tool operation, the operation returns \<^verbatim>\<open>success=False\<close>; the codes
  \<^verbatim>\<open>InvalidAccessKeyId\<close>, \<^verbatim>\<open>SignatureDoesNotMatch\<close> and \<^verbatim>\<open>AccessDenied\<close> give
  \<^verbatim>\<open>requires_credentials=True\<close> and a fixed message; every other code gives
  \<^verbatim>\<open>requires_credentials=False\<close>, with the message \<^verbatim>\<open>AWS error: \<close> followed by the text, or,
  for \<^verbatim>\<open>NoSuchBucket\<close> in \<^verbatim>\<open>get_s3_bucket_file_count\<close>, the message naming a bucket that does
  not exist.
\<close>

theorem client_error_mapping:
  "(ClientError code text
      \<in> set (raised (new_events s (snd (get_s3_bucket_sizes L B credentials s))))
    \<longrightarrow> fst (get_s3_bucket_sizes L B credentials s) =
     \<lparr>success = False, data = NoData,
      message =
        (if code = ''InvalidAccessKeyId'' then
           ''The AWS Access Key ID you provided is invalid. Please check your credentials.''
         else if code = ''SignatureDoesNotMatch'' then
           ''The AWS Secret Access Key you provided is invalid. Please check your credentials.''
         else if code = ''AccessDenied'' then
           ''Your AWS credentials don't have permission to list S3 buckets. Please check your IAM permissions.''
         else ''AWS error: '' @ text),
      requires_credentials = (code \<in> set credential_error_codes)\<rparr>)
   \<and> (ClientError code text
      \<in> set (raised (new_events s (snd (list_ec2_instances B credentials s))))
    \<longrightarrow> fst (list_ec2_instances B credentials s) =
     \<lparr>success = False, data = NoData,
      message =
        (if code = ''InvalidAccessKeyId'' \<or> code = ''SignatureDoesNotMatch'' then
           ''Invalid AWS credentials provided. Please check your Access Key ID and Secret Access Key.''
         else if code = ''AccessDenied'' then
           ''Your AWS credentials don't have permission to list EC2 instances. Please check your IAM permissions.''
         else ''AWS error: '' @ text),
      requires_credentials = (code \<in> set credential_error_codes)\<rparr>)
   \<and> (ClientError code text
      \<in> set (raised (new_events s (snd (describe_iam_role B role_name credentials s))))
    \<longrightarrow> fst (describe_iam_role B role_name credentials s) =
     \<lparr>success = False, data = NoData,
      message =
        (if code = ''InvalidAccessKeyId'' \<or> code = ''SignatureDoesNotMatch'' then
           ''Invalid AWS credentials provided. Please check your Access Key ID and Secret Access Key.''
         else if code = ''AccessDenied'' then
           ''Your AWS credentials don't have permission to access IAM roles. Please check your IAM permissions.''
         else ''AWS error: '' @ text),
      requires_credentials = (code \<in> set credential_error_codes)\<rparr>)
   \<and> (ClientError code text
      \<in> set (raised (new_events s (snd (get_s3_bucket_file_count L B bucket_name credentials s))))
    \<longrightarrow> (\<exists>bucket. fst (get_s3_bucket_file_count L B bucket_name credentials s) =
     \<lparr>success = False, data = NoData,
      message =
        (if code = ''NoSuchBucket'' then
           ''The specified bucket '' @ quoted bucket @ '' does not exist''
         else if code = ''InvalidAccessKeyId'' \<or> code = ''SignatureDoesNotMatch'' then
           ''Invalid AWS credentials provided. Please check your Access Key ID and Secret Access Key.''
         else if code = ''AccessDenied'' then
           ''Your AWS credentials don't have permission to list objects in S3 buckets. Please check your IAM permissions.''
         else ''AWS error: '' @ text),
      requires_credentials = (code \<in> set credential_error_codes)\<rparr>))"
  by (intro conjI impI;
      erule sizes_client_error ec2_client_error iam_client_error file_count_client_error)

theorem client_error_mapping_witness:
  "ClientError ''AccessDenied'' ''An error occurred (AccessDenied)''
      \<in> set (raised (new_events s0
           (snd (get_s3_bucket_sizes demo_lib denied_boto (Some (Cred demo_credentials)) s0))))
   \<and> requires_credentials
        (fst (get_s3_bucket_sizes demo_lib denied_boto (Some (Cred demo_credentials)) s0))
   \<and> ClientError ''AccessDenied'' ''An error occurred (AccessDenied)''
      \<in> set (raised (new_events s0
           (snd (list_ec2_instances denied_boto (Some (Cred demo_credentials)) s0))))
   \<and> requires_credentials
        (fst (list_ec2_instances denied_boto (Some (Cred demo_credentials)) s0))
   \<and> ClientError ''AccessDenied'' ''An error occurred (AccessDenied)''
      \<in> set (raised (new_events s0
           (snd (describe_iam_role denied_boto ''admin'' (Some (Cred demo_credentials)) s0))))
   \<and> requires_credentials
        (fst (describe_iam_role denied_boto ''admin'' (Some (Cred demo_credentials)) s0))
   \<and> ClientError ''AccessDenied'' ''An error occurred (AccessDenied)''
      \<in> set (raised (new_events s0
           (snd (get_s3_bucket_file_count demo_lib denied_boto (Some ''logs'')
                  (Some (Cred demo_credentials)) s0))))
   \<and> requires_credentials
        (fst (get_s3_bucket_file_count demo_lib denied_boto (Some ''logs'')
                  (Some (Cred demo_credentials)) s0))"
proof -
  have h1: "ClientError ''AccessDenied'' ''An error occurred (AccessDenied)''
      \<in> set (raised (new_events s0
           (snd (get_s3_bucket_sizes demo_lib denied_boto (Some (Cred demo_credentials)) s0))))"
    by (simp add: tool_defs demo_defs)
  have h2: "ClientError ''AccessDenied'' ''An error occurred (AccessDenied)''
      \<in> set (raised (new_events s0
           (snd (list_ec2_instances denied_boto (Some (Cred demo_credentials)) s0))))"
    by (simp add: tool_defs demo_defs)
  have h3: "ClientError ''AccessDenied'' ''An error occurred (AccessDenied)''
      \<in> set (raised (new_events s0
           (snd (describe_iam_role denied_boto ''admin'' (Some (Cred demo_credentials)) s0))))"
    by (simp add: tool_defs demo_defs)
  have h4: "ClientError ''AccessDenied'' ''An error occurred (AccessDenied)''
      \<in> set (raised (new_events s0
           (snd (get_s3_bucket_file_count demo_lib denied_boto (Some ''logs'')
                  (Some (Cred demo_credentials)) s0))))"
    by (simp add: tool_defs demo_defs)
  from h1 h2 h3 h4
    client_error_mapping [of "''AccessDenied''" "''An error occurred (AccessDenied)''" s0
      demo_lib denied_boto "Some (Cred demo_credentials)" "''admin''" "Some ''logs''"]
  show ?thesis
    by (auto simp: credential_error_codes_def)
qed

section \<open>The orchestrator's loop\<close>

subsection \<open>What a tool call adds to the log\<close>

lemma dispatched_simps [simp]:
  "dispatched [] = []"
  "dispatched (a @ b) = dispatched a @ dispatched b"
  "dispatched (Api n x # evs) = dispatched evs"
  "dispatched (Dispatch f # evs) = f # dispatched evs"
  "dispatched (Completion ms wt # evs) = dispatched evs"
  "dispatched (Invoke q # evs) = dispatched evs"
  by (simp_all add: dispatched_def)

lemma completions_simps [simp]:
  "completions [] = []"
  "completions (a @ b) = completions a @ completions b"
  "completions (Api n x # evs) = completions evs"
  "completions (Dispatch f # evs) = completions evs"
  "completions (Completion ms wt # evs) = Completion ms wt # completions evs"
  "completions (Invoke q # evs) = completions evs"
  by (simp_all add: completions_def)

lemma api_calls_simps [simp]:
  "api_calls [] = []"
  "api_calls (a @ b) = api_calls a @ api_calls b"
  "api_calls (Api n x # evs) = n # api_calls evs"
  "api_calls (Dispatch f # evs) = api_calls evs"
  "api_calls (Completion ms wt # evs) = api_calls evs"
  "api_calls (Invoke q # evs) = api_calls evs"
  by (simp_all add: api_calls_def)

lemma only_api_dispatched: "list_all is_api evs \<Longrightarrow> dispatched evs = []"
  by (induction evs) (auto simp: is_api_def split: event.splits)

lemma only_api_completions: "list_all is_api evs \<Longrightarrow> completions evs = []"
  by (induction evs) (auto simp: is_api_def split: event.splits)

lemma api_only:
  "api n f s = (r, s') \<Longrightarrow> \<exists>evs. trace s' = trace s @ evs \<and> list_all is_api evs"
  by (auto simp: api_def is_api_def split: prod.splits)

lemma paginate_all_only:
  "paginate_all B c b s = (r, s') \<Longrightarrow> \<exists>evs. trace s' = trace s @ evs \<and> list_all is_api evs"
  by (auto simp: paginate_all_def Let_def is_api_def list_all_iff split: prod.splits option.splits)

lemma bucket_sizes_loop_only:
  "bucket_sizes_loop L B c bs acc s = (r, s') \<Longrightarrow>
   \<exists>evs. trace s' = trace s @ evs \<and> list_all is_api evs"
proof (induction bs arbitrary: acc s)
  case Nil
  then show ?case by auto
next
  case (Cons b bs)
  obtain p s1 where p: "paginate_all B c b s = (p, s1)" by (cases "paginate_all B c b s")
  from paginate_all_only [OF p] obtain e1 where
    e1: "trace s1 = trace s @ e1" "list_all is_api e1" by blast
  show ?case
  proof (cases p)
    case (Inl e)
    with Cons.prems p e1 show ?thesis by auto
  next
    case (Inr pages)
    with Cons.prems p have
      "bucket_sizes_loop L B c bs
         (acc @ [(b, sum_list (map page_size pages), round_mb L (sum_list (map page_size pages)))]) s1 = (r, s')"
      by (simp add: Let_def)
    from Cons.IH [OF this] obtain e2 where
      "trace s' = trace s1 @ e2" "list_all is_api e2" by blast
    with e1 show ?thesis by (intro exI [of _ "e1 @ e2"]) simp
  qed
qed

lemma file_count_loop_only:
  "file_count_loop L B c bs acc s = (r, s') \<Longrightarrow>
   \<exists>evs. trace s' = trace s @ evs \<and> list_all is_api evs"
proof (induction bs arbitrary: acc s)
  case Nil
  then show ?case by auto
next
  case (Cons b bs)
  obtain p s1 where p: "paginate_all B c b s = (p, s1)" by (cases "paginate_all B c b s")
  from paginate_all_only [OF p] obtain e1 where
    e1: "trace s1 = trace s @ e1" "list_all is_api e1" by blast
  show ?case
  proof (cases p)
    case (Inl e)
    with Cons.prems p e1 show ?thesis
      by (cases e) (auto split: if_splits)
  next
    case (Inr pages)
    with Cons.prems p have
      "file_count_loop L B c bs
         (acc @ [(b, sum_list (map page_count pages), sum_list (map page_size pages),
                  round_mb L (sum_list (map page_size pages)))]) s1 = (r, s')"
      by (simp add: Let_def)
    from Cons.IH [OF this] obtain e2 where
      "trace s' = trace s1 @ e2" "list_all is_api e2" by blast
    with e1 show ?thesis by (intro exI [of _ "e1 @ e2"]) simp
  qed
qed

lemma sizes_only:
  assumes "get_s3_bucket_sizes L B cr s = (r, s')"
  shows "\<exists>evs. trace s' = trace s @ evs \<and> list_all is_api evs"
proof (cases "present cr")
  case False
  with assms show ?thesis by (simp add: get_s3_bucket_sizes_def)
next
  case True
  obtain q s1 where t: "bucket_sizes_try L B cr s = (q, s1)"
    by (cases "bucket_sizes_try L B cr s")
  with True assms have s1: "s1 = s'"
    by (auto simp: get_s3_bucket_sizes_def split: sum.splits pyexc.splits)
  show ?thesis
  proof (cases "get_client B ''s3'' cr")
    case (Inl e)
    with t s1 show ?thesis by (simp add: bucket_sizes_try_def)
  next
    case (Inr s3)
    obtain p s2 where p: "api ''s3.list_buckets'' (list_buckets B s3) s = (p, s2)"
      by (cases "api ''s3.list_buckets'' (list_buckets B s3) s")
    from api_only [OF p] obtain e1 where e1: "trace s2 = trace s @ e1" "list_all is_api e1"
      by blast
    show ?thesis
    proof (cases p)
      case (Inl e)
      with t s1 Inr p e1 show ?thesis by (auto simp: bucket_sizes_try_def)
    next
      case names: (Inr names)
      with t Inr p have "bucket_sizes_loop L B s3 names [] s2 = (q, s1)"
        by (simp add: bucket_sizes_try_def)
      from bucket_sizes_loop_only [OF this] obtain e2 where
        "trace s1 = trace s2 @ e2" "list_all is_api e2" by blast
      with e1 s1 show ?thesis by (intro exI [of _ "e1 @ e2"]) simp
    qed
  qed
qed

lemma ec2_only:
  assumes "list_ec2_instances B cr s = (r, s')"
  shows "\<exists>evs. trace s' = trace s @ evs \<and> list_all is_api evs"
proof (cases "present cr")
  case False
  with assms show ?thesis by (simp add: list_ec2_instances_def)
next
  case True
  obtain q s1 where t: "ec2_instances_try B cr s = (q, s1)"
    by (cases "ec2_instances_try B cr s")
  with True assms have s1: "s1 = s'"
    by (auto simp: list_ec2_instances_def split: sum.splits pyexc.splits)
  show ?thesis
  proof (cases "get_client B ''ec2'' cr")
    case (Inl e)
    with t s1 show ?thesis by (simp add: ec2_instances_try_def)
  next
    case (Inr ec2)
    obtain p s2 where p: "api ''ec2.describe_instances'' (describe_instances B ec2) s = (p, s2)"
      by (cases "api ''ec2.describe_instances'' (describe_instances B ec2) s")
    from api_only [OF p] obtain e1 where e1: "trace s2 = trace s @ e1" "list_all is_api e1"
      by blast
    from t s1 Inr p e1 show ?thesis
      by (cases p) (auto simp: ec2_instances_try_def)
  qed
qed

lemma iam_only:
  assumes "describe_iam_role B role_name cr s = (r, s')"
  shows "\<exists>evs. trace s' = trace s @ evs \<and> list_all is_api evs"
proof (cases "present cr")
  case False
  with assms show ?thesis by (simp add: describe_iam_role_def)
next
  case True
  obtain q s1 where t: "iam_role_try B role_name cr s = (q, s1)"
    by (cases "iam_role_try B role_name cr s")
  with True assms have s1: "s1 = s'"
    by (auto simp: describe_iam_role_def split: sum.splits pyexc.splits prod.splits)
  show ?thesis
  proof (cases "get_client B ''iam'' cr")
    case (Inl e)
    with t s1 show ?thesis by (simp add: iam_role_try_def)
  next
    case (Inr iam)
    obtain p s2 where p: "api ''iam.get_role'' (get_role B iam role_name) s = (p, s2)"
      by (cases "api ''iam.get_role'' (get_role B iam role_name) s")
    from api_only [OF p] obtain e1 where e1: "trace s2 = trace s @ e1" "list_all is_api e1"
      by blast
    show ?thesis
    proof (cases p)
      case (Inl e)
      with t s1 Inr p e1 show ?thesis by (auto simp: iam_role_try_def)
    next
      case role: (Inr role_dict)
      obtain p2 s3 where p2: "api ''iam.list_attached_role_policies''
          (list_attached_role_policies B iam role_name) s2 = (p2, s3)"
        by (cases "api ''iam.list_attached_role_policies''
          (list_attached_role_policies B iam role_name) s2")
      from api_only [OF p2] obtain e2 where e2: "trace s3 = trace s2 @ e2" "list_all is_api e2"
        by blast
      from t Inr p role p2 have "s1 = s3"
        by (cases p2) (auto simp: iam_role_try_def)
      with e1 e2 s1 show ?thesis by (intro exI [of _ "e1 @ e2"]) simp
    qed
  qed
qed

lemma file_count_only:
  assumes "get_s3_bucket_file_count L B bucket_name cr s = (r, s')"
  shows "\<exists>evs. trace s' = trace s @ evs \<and> list_all is_api evs"
proof (cases "present cr")
  case False
  with assms show ?thesis by (simp add: get_s3_bucket_file_count_def)
next
  case True
  show ?thesis
  proof (cases "get_client B ''s3'' cr")
    case (Inl e)
    with True assms show ?thesis by (simp add: get_s3_bucket_file_count_def)
  next
    case (Inr s3)
    obtain q s1 where t: "file_count_try L B s3 bucket_name s = (q, s1)"
      by (cases "file_count_try L B s3 bucket_name s")
    with True Inr assms have s1: "s1 = s'"
      by (auto simp: get_s3_bucket_file_count_def split: sum.splits pyexc.splits)
    define start where
      "start = (if bucket_name = None \<or> bucket_name = Some []
                then api ''s3.list_buckets'' (list_buckets B s3) s
                else (Inr [str_opt bucket_name], s))"
    obtain p s2 where p: "start = (p, s2)" by (cases start)
    have "\<exists>evs. trace s2 = trace s @ evs \<and> list_all is_api evs"
    proof (cases "bucket_name = None \<or> bucket_name = Some []")
      case True
      with p have "api ''s3.list_buckets'' (list_buckets B s3) s = (p, s2)"
        by (simp add: start_def)
      from api_only [OF this] show ?thesis .
    next
      case False
      with p show ?thesis by (auto simp: start_def)
    qed
    then obtain e1 where e1: "trace s2 = trace s @ e1" "list_all is_api e1" by blast
    show ?thesis
    proof (cases p)
      case (Inl e)
      with t p s1 e1 show ?thesis
        by (auto simp: file_count_try_def start_def [symmetric])
    next
      case (Inr buckets)
      obtain q2 sc where q2: "file_count_loop L B s3 buckets [] s2 = (q2, sc)"
        by (cases "file_count_loop L B s3 buckets [] s2")
      from file_count_loop_only [OF q2] obtain e2 where
        e2: "trace sc = trace s2 @ e2" "list_all is_api e2" by blast
      from t p Inr q2 have "s1 = sc"
        by (auto simp: file_count_try_def start_def [symmetric] split: sum.splits)
      with e1 e2 s1 show ?thesis by (intro exI [of _ "e1 @ e2"]) simp
    qed
  qed
qed

lemma dispatch_trace [simp]: "trace (dispatch f s) = trace s @ [Dispatch f]"
  by (simp add: dispatch_def)

lemma execute_function_result:
  assumes "execute_function L B function_name arguments s = (Inr result, s')"
  shows "\<exists>evs. trace s' = trace s @ Dispatch function_name # evs \<and> list_all is_api evs"
proof -
  consider
      (sizes) "get_s3_bucket_sizes L B (lookup_credentials arguments) (dispatch function_name s) = (result, s')"
    | (ec2) "list_ec2_instances B (lookup_credentials arguments) (dispatch function_name s) = (result, s')"
    | (iam) role_name where "describe_iam_role B role_name (lookup_credentials arguments) (dispatch function_name s) = (result, s')"
    | (count) "get_s3_bucket_file_count L B (map_of (fst arguments) ''bucket_name'')
                 (lookup_credentials arguments) (dispatch function_name s) = (result, s')"
    using assms
    by (auto simp: execute_function_def Let_def split: if_splits prod.splits option.splits)
  then show ?thesis
  proof cases
    case sizes
    from sizes_only [OF this] show ?thesis by auto
  next
    case ec2
    from ec2_only [OF this] show ?thesis by auto
  next
    case iam
    from iam_only [OF this] show ?thesis by auto
  next
    case count
    from file_count_only [OF this] show ?thesis by auto
  qed
qed

lemma execute_function_raises:
  "execute_function L B function_name arguments s = (Inl e, s') \<Longrightarrow> s' = s"
  by (auto simp: execute_function_def Let_def split: if_splits prod.splits option.splits)

subsection \<open>One pass, and the loop\<close>

lemma execution_failed_not_next [simp]: "execution_failed e \<noteq> Next acc"
  by (simp add: execution_failed_def Let_def)

lemma handle_next:
  assumes "handle_tool_call L B cr tc (a, r, c) s = (Next (a', r', c'), s')"
  shows "\<exists>entries result text.
     loads_arguments L (tc_arguments tc) = Inr entries
     \<and> execute_function L B (tc_name tc)
          (entries, if requires_aws_credentials (tc_name tc) then cr else None) s = (Inr result, s')
     \<and> success result \<and> \<not> requires_credentials result
     \<and> json_dumps L (data result) = Inr text
     \<and> a' = a @ [''Successfully executed '' @ tc_name tc]
     \<and> c' = c @ [assistant_record tc, tool_record tc text]"
  using assms
  by (auto simp: handle_tool_call_def Let_def split: sum.splits if_splits prod.splits)

lemma handle_failed:
  assumes "loads_arguments L (tc_arguments tc) = Inr entries"
    and "\<not> (requires_aws_credentials (tc_name tc) \<and> cr = None)"
    and "execute_function L B (tc_name tc)
          (entries, if requires_aws_credentials (tc_name tc) then cr else None) s = (Inr result, s')"
    and "requires_credentials result \<or> \<not> success result"
  shows "handle_tool_call L B cr tc (a, r, c) s =
     (Return (if requires_credentials result
              then (chat_response (message result))\<lparr>requiresCredentials := Some True\<rparr>
              else (chat_response (message result))\<lparr>actions_taken := a\<rparr>), s')"
  using assms
  by (auto simp: handle_tool_call_def Let_def)

lemma loop_append:
  "tool_calls_loop L B cr (pre @ rest) acc s =
     (case tool_calls_loop L B cr pre acc s of
        (Next acc', s') \<Rightarrow> tool_calls_loop L B cr rest acc' s'
      | (Return x, s') \<Rightarrow> (Return x, s')
      | (Raise e, s') \<Rightarrow> (Raise e, s'))"
proof (induction pre arbitrary: acc s)
  case Nil
  then show ?case by simp
next
  case (Cons tc pre)
  show ?case
    by (cases "handle_tool_call L B cr tc acc s")
       (auto simp: Cons.IH split: outcome.splits)
qed

lemma loop_next:
  "tool_calls_loop L B cr tcs (a, r, c) s = (Next (a', r', c'), s') \<Longrightarrow>
   a' = a @ map (\<lambda>tc. ''Successfully executed '' @ tc_name tc) tcs
   \<and> (\<exists>after. c' = c @ after)
   \<and> (\<exists>evs. trace s' = trace s @ evs \<and> dispatched evs = map tc_name tcs \<and> completions evs = [])"
proof (induction tcs arbitrary: a r c s)
  case Nil
  then show ?case by simp
next
  case (Cons tc tcs)
  obtain out s1 where h: "handle_tool_call L B cr tc (a, r, c) s = (out, s1)"
    by (cases "handle_tool_call L B cr tc (a, r, c) s")
  with Cons.prems obtain a1 r1 c1 where out: "out = Next (a1, r1, c1)"
    by (cases out) auto
  from handle_next [OF h [unfolded out]] obtain entries result dumped where
    e: "execute_function L B (tc_name tc)
          (entries, if requires_aws_credentials (tc_name tc) then cr else None) s = (Inr result, s1)"
    and a1: "a1 = a @ [''Successfully executed '' @ tc_name tc]"
    and c1: "c1 = c @ [assistant_record tc, tool_record tc dumped]"
    by blast
  from execute_function_result [OF e] obtain ev1 where
    ev1: "trace s1 = trace s @ Dispatch (tc_name tc) # ev1" "list_all is_api ev1" by blast
  from Cons.prems h out have "tool_calls_loop L B cr tcs (a1, r1, c1) s1 = (Next (a', r', c'), s')"
    by simp
  from Cons.IH [OF this] obtain after ev2 where
    "a' = a1 @ map (\<lambda>tc. ''Successfully executed '' @ tc_name tc) tcs"
    "c' = c1 @ after"
    "trace s' = trace s1 @ ev2" "dispatched ev2 = map tc_name tcs" "completions ev2 = []"
    by blast
  with a1 c1 ev1 show ?case
    by (auto simp: only_api_dispatched only_api_completions
        intro!: exI [of _ "Dispatch (tc_name tc) # ev1 @ ev2"])
qed

lemma create_completion_trace:
  "create_completion M ms b s = (r, s') \<Longrightarrow> trace s' = trace s @ [Completion ms b]"
  by (auto simp: create_completion_def split: prod.splits)

lemma short_circuit:
  assumes comp: "create_completion M (map to_openai msgs) True s = (Inr reply, s1)"
    and calls: "reply_tool_calls reply = pre @ tc # post"
    and prior: "tool_calls_loop L B cr pre ([], [], map to_openai msgs) s1 = (Next (a, r, c), s2)"
    and args: "loads_arguments L (tc_arguments tc) = Inr entries"
    and guard: "\<not> (requires_aws_credentials (tc_name tc) \<and> cr = None)"
    and exec: "execute_function L B (tc_name tc)
          (entries, if requires_aws_credentials (tc_name tc) then cr else None) s2 = (Inr result, s3)"
    and fail: "requires_credentials result \<or> \<not> success result"
  shows "process_request L B M msgs cr s =
     (Inr (if requires_credentials result
           then (chat_response (message result))\<lparr>requiresCredentials := Some True\<rparr>
           else (chat_response (message result))\<lparr>actions_taken := a\<rparr>), s3)"
proof -
  have "tool_calls_loop L B cr (pre @ tc # post) ([], [], map to_openai msgs) s1 =
     (Return (if requires_credentials result
              then (chat_response (message result))\<lparr>requiresCredentials := Some True\<rparr>
              else (chat_response (message result))\<lparr>actions_taken := a\<rparr>), s3)"
    by (simp add: loop_append prior handle_failed [OF args guard exec fail])
  with comp calls show ?thesis
    by (simp add: process_request_def process_request_try_def Let_def)
qed

lemma short_circuit_events:
  assumes comp: "create_completion M (map to_openai msgs) True s = (Inr reply, s1)"
    and prior: "tool_calls_loop L B cr pre ([], [], map to_openai msgs) s1 = (Next (a, r, c), s2)"
    and exec: "execute_function L B (tc_name tc) arguments s2 = (Inr result, s3)"
  shows "a = map (\<lambda>tc. ''Successfully executed '' @ tc_name tc) pre
     \<and> dispatched (new_events s s3) = map tc_name pre @ [tc_name tc]
     \<and> completions (new_events s s3) = [Completion (map to_openai msgs) True]"
proof -
  note t1 = create_completion_trace [OF comp]
  from loop_next [OF prior] obtain ev2 where
    a: "a = map (\<lambda>tc. ''Successfully executed '' @ tc_name tc) pre"
    and ev2: "trace s2 = trace s1 @ ev2" "dispatched ev2 = map tc_name pre" "completions ev2 = []"
    by auto
  from execute_function_result [OF exec] obtain ev3 where
    ev3: "trace s3 = trace s2 @ Dispatch (tc_name tc) # ev3" "list_all is_api ev3" by blast
  have "new_events s s3 = Completion (map to_openai msgs) True # ev2 @ Dispatch (tc_name tc) # ev3"
    using t1 ev2(1) ev3(1) by (simp add: new_events_def)
  with a ev2 ev3 show ?thesis
    by (simp add: only_api_dispatched only_api_completions)
qed

text \<open>
  C2. The model asked for the tool calls \<open>pre @ tc # post\<close>; the calls of \<open>pre\<close> succeeded
  and the call \<open>tc\<close> was dispatched and returned a result with
  \<^verbatim>\<open>requires_credentials=True\<close> or \<^verbatim>\<open>success=False\<close>. Then \<^verbatim>\<open>process_request\<close> returns in
  the state in which that call returned: the tool methods entered are those of \<open>pre\<close> and
  \<open>tc\<close>, none of \<open>post\<close>, and the model was asked once, so it never sees the failing
  result. On a failure that does not ask for credentials the response carries the
  \<^verbatim>\<open>actions_taken\<close> of the calls of \<open>pre\<close>.
\<close>

theorem tool_failure_short_circuit:
  assumes comp: "create_completion M (map to_openai msgs) True s = (Inr reply, s1)"
    and calls: "reply_tool_calls reply = pre @ tc # post"
    and prior: "tool_calls_loop L B cr pre ([], [], map to_openai msgs) s1 = (Next (a, r, c), s2)"
    and args: "loads_arguments L (tc_arguments tc) = Inr entries"
    and guard: "\<not> (requires_aws_credentials (tc_name tc) \<and> cr = None)"
    and exec: "execute_function L B (tc_name tc)
          (entries, if requires_aws_credentials (tc_name tc) then cr else None) s2 = (Inr result, s3)"
    and fail: "requires_credentials result \<or> \<not> success result"
  shows "process_request L B M msgs cr s =
       (Inr (if requires_credentials result
             then (chat_response (message result))\<lparr>requiresCredentials := Some True\<rparr>
             else (chat_response (message result))
                    \<lparr>actions_taken := map (\<lambda>tc. ''Successfully executed '' @ tc_name tc) pre\<rparr>), s3)
     \<and> dispatched (new_events s s3) = map tc_name pre @ [tc_name tc]
     \<and> completions (new_events s s3) = [Completion (map to_openai msgs) True]"
  using short_circuit [OF comp calls prior args guard exec fail]
    short_circuit_events [OF comp prior exec]
  by simp

theorem tool_failure_short_circuit_witness:
  "fst (process_request demo_lib (demo_boto request_limit)
          (demo_model [call_sizes, call_ec2, call_count]) [user_message]
          (Some demo_credentials) s0)
     = Inr ((chat_response ''AWS error: An error occurred (RequestLimitExceeded)'')
              \<lparr>actions_taken := [''Successfully executed get_s3_bucket_sizes'']\<rparr>)
   \<and> dispatched (new_events s0
        (snd (process_request demo_lib (demo_boto request_limit)
          (demo_model [call_sizes, call_ec2, call_count]) [user_message]
          (Some demo_credentials) s0)))
     = [''get_s3_bucket_sizes'', ''list_ec2_instances'']"
proof -
  let ?B = "demo_boto request_limit"
  let ?M = "demo_model [call_sizes, call_ec2, call_count]"
  let ?cr = "Some demo_credentials"
  let ?reply = "\<lparr>reply_content = None, reply_tool_calls = [call_sizes, call_ec2, call_count]\<rparr>"
  let ?result = "\<lparr>success = False, data = NoData,
      message = ''AWS error: An error occurred (RequestLimitExceeded)'',
      requires_credentials = False\<rparr> :: nat AWSResponse"
  define s1 where "s1 = snd (create_completion ?M (map to_openai [user_message]) True s0)"
  define s2 where
    "s2 = snd (tool_calls_loop demo_lib ?B ?cr [call_sizes] ([], [], map to_openai [user_message]) s1)"
  define s3 where
    "s3 = snd (execute_function demo_lib ?B ''list_ec2_instances'' ([], ?cr) s2)"
  have comp: "create_completion ?M (map to_openai [user_message]) True s0 = (Inr ?reply, s1)"
    by (simp add: s1_def create_completion_def demo_model_def)
  have calls: "reply_tool_calls ?reply = [call_sizes] @ call_ec2 # [call_count]"
    by simp
  have prior: "tool_calls_loop demo_lib ?B ?cr [call_sizes] ([], [], map to_openai [user_message]) s1
      = (Next ([''Successfully executed get_s3_bucket_sizes''],
               [(''get_s3_bucket_sizes'', [])],
               map to_openai [user_message] @
                 [assistant_record call_sizes, tool_record call_sizes ''buckets: logs'']), s2)"
    by (simp add: s2_def orchestrator_defs tool_defs demo_defs)
  have args: "loads_arguments demo_lib (tc_arguments call_ec2) = Inr []"
    by (simp add: demo_defs)
  have guard: "\<not> (requires_aws_credentials (tc_name call_ec2) \<and> ?cr = None)"
    by simp
  have exec: "execute_function demo_lib ?B (tc_name call_ec2)
      ([], if requires_aws_credentials (tc_name call_ec2) then ?cr else None) s2 = (Inr ?result, s3)"
    by (simp add: s3_def orchestrator_defs tool_defs demo_defs)
  have fail: "requires_credentials ?result \<or> \<not> success ?result"
    by simp
  from tool_failure_short_circuit [OF comp calls prior args guard exec fail]
  show ?thesis
    by (simp add: call_sizes_def call_ec2_def)
qed

text \<open>
  C10. When the failing call asks for credentials and one or more calls succeeded before
  it, the response has \<^verbatim>\<open>requiresCredentials=True\<close>, and its \<^verbatim>\<open>actions_taken\<close> and
  \<^verbatim>\<open>aws_resources_affected\<close> are empty, although the loop had recorded the actions \<open>a\<close> of
  the calls that succeeded.
\<close>

theorem credential_failure_drops_record:
  assumes comp: "create_completion M (map to_openai msgs) True s = (Inr reply, s1)"
    and calls: "reply_tool_calls reply = pre @ tc # post"
    and some: "pre \<noteq> []"
    and prior: "tool_calls_loop L B cr pre ([], [], map to_openai msgs) s1 = (Next (a, r, c), s2)"
    and args: "loads_arguments L (tc_arguments tc) = Inr entries"
    and guard: "\<not> (requires_aws_credentials (tc_name tc) \<and> cr = None)"
    and exec: "execute_function L B (tc_name tc)
          (entries, if requires_aws_credentials (tc_name tc) then cr else None) s2 = (Inr result, s3)"
    and cred: "requires_credentials result"
  shows "process_request L B M msgs cr s =
       (Inr \<lparr>response = message result, actions_taken = [], aws_resources_affected = [],
              validation_results = None, requiresCredentials = Some True, error = None\<rparr>, s3)
     \<and> a = map (\<lambda>tc. ''Successfully executed '' @ tc_name tc) pre
     \<and> a \<noteq> []
     \<and> dispatched (new_events s s3) = map tc_name pre @ [tc_name tc]"
proof -
  from cred have fail: "requires_credentials result \<or> \<not> success result" by simp
  from short_circuit [OF comp calls prior args guard exec fail]
    short_circuit_events [OF comp prior exec] cred some
  show ?thesis by (simp add: chat_response_def)
qed

theorem credential_failure_drops_record_witness:
  "fst (process_request demo_lib (demo_boto access_denied)
          (demo_model [call_sizes, call_ec2, call_count]) [user_message]
          (Some demo_credentials) s0)
     = Inr \<lparr>response = ''Your AWS credentials don't have permission to list EC2 instances. Please check your IAM permissions.'',
            actions_taken = [], aws_resources_affected = [], validation_results = None,
            requiresCredentials = Some True, error = None\<rparr>
   \<and> dispatched (new_events s0
        (snd (process_request demo_lib (demo_boto access_denied)
          (demo_model [call_sizes, call_ec2, call_count]) [user_message]
          (Some demo_credentials) s0)))
     = [''get_s3_bucket_sizes'', ''list_ec2_instances'']"
proof -
  let ?B = "demo_boto access_denied"
  let ?M = "demo_model [call_sizes, call_ec2, call_count]"
  let ?cr = "Some demo_credentials"
  let ?reply = "\<lparr>reply_content = None, reply_tool_calls = [call_sizes, call_ec2, call_count]\<rparr>"
  let ?result = "\<lparr>success = False, data = NoData,
      message = ''Your AWS credentials don't have permission to list EC2 instances. Please check your IAM permissions.'',
      requires_credentials = True\<rparr> :: nat AWSResponse"
  define s1 where "s1 = snd (create_completion ?M (map to_openai [user_message]) True s0)"
  define s2 where
    "s2 = snd (tool_calls_loop demo_lib ?B ?cr [call_sizes] ([], [], map to_openai [user_message]) s1)"
  define s3 where
    "s3 = snd (execute_function demo_lib ?B ''list_ec2_instances'' ([], ?cr) s2)"
  have comp: "create_completion ?M (map to_openai [user_message]) True s0 = (Inr ?reply, s1)"
    by (simp add: s1_def create_completion_def demo_model_def)
  have calls: "reply_tool_calls ?reply = [call_sizes] @ call_ec2 # [call_count]"
    by simp
  have some: "[call_sizes] \<noteq> []" by simp
  have prior: "tool_calls_loop demo_lib ?B ?cr [call_sizes] ([], [], map to_openai [user_message]) s1
      = (Next ([''Successfully executed get_s3_bucket_sizes''],
               [(''get_s3_bucket_sizes'', [])],
               map to_openai [user_message] @
                 [assistant_record call_sizes, tool_record call_sizes ''buckets: logs'']), s2)"
    by (simp add: s2_def orchestrator_defs tool_defs demo_defs)
  have args: "loads_arguments demo_lib (tc_arguments call_ec2) = Inr []"
    by (simp add: demo_defs)
  have guard: "\<not> (requires_aws_credentials (tc_name call_ec2) \<and> ?cr = None)"
    by simp
  have exec: "execute_function demo_lib ?B (tc_name call_ec2)
      ([], if requires_aws_credentials (tc_name call_ec2) then ?cr else None) s2 = (Inr ?result, s3)"
    by (simp add: s3_def orchestrator_defs tool_defs demo_defs)
  have cred: "requires_credentials ?result"
    by simp
  from credential_failure_drops_record [OF comp calls some prior args guard exec cred]
  show ?thesis
    by (simp add: call_sizes_def call_ec2_def)
qed



text \<open>
  C4. The tool schemas and \<^verbatim>\<open>aws_operations\<close> name \<^verbatim>\<open>create_s3_bucket\<close>,
  \<^verbatim>\<open>create_lambda_function\<close>, \<^verbatim>\<open>create_iam_role\<close> and \<^verbatim>\<open>assign_policy_to_role\<close>, but
  \<^verbatim>\<open>AWSTools\<close> defines none of them: dispatching one raises
  \<^verbatim>\<open>Exception("Unknown function: ...")\<close>, sends no request and returns no result envelope.
\<close>

theorem creation_tools_missing:
  assumes "function_name \<in> set [''create_s3_bucket'', ''create_lambda_function'',
             ''create_iam_role'', ''assign_policy_to_role'']"
    and "\<not> other_attribute L function_name"
  shows "function_name \<in> set tools \<and> requires_aws_credentials function_name
     \<and> execute_function L B function_name arguments s =
         (Inl (PyException (''Unknown function: '' @ function_name)), s)"
  using assms
  by (auto simp: tools_def requires_aws_credentials_def aws_operations_def
        execute_function_def Let_def)

theorem creation_tools_missing_witness:
  "''create_s3_bucket'' \<in> set tools
   \<and> requires_aws_credentials ''create_s3_bucket''
   \<and> execute_function demo_lib denied_boto ''create_s3_bucket''
        ([(''bucket_name'', ''reports'')], Some demo_credentials) s0
      = (Inl (PyException ''Unknown function: create_s3_bucket''), s0)"
proof -
  have h1: "''create_s3_bucket'' \<in> set [''create_s3_bucket'', ''create_lambda_function'',
             ''create_iam_role'', ''assign_policy_to_role'']"
    by simp
  have h2: "\<not> other_attribute demo_lib ''create_s3_bucket''"
    by (simp add: demo_lib_def)
  from creation_tools_missing [OF h1 h2, of denied_boto
      "([(''bucket_name'', ''reports'')], Some demo_credentials)" s0]
  show ?thesis by simp
qed

text \<open>
  The same at the level of a request: the model asks for \<^verbatim>\<open>create_s3_bucket\<close>, the
  request carries credentials, and \<^verbatim>\<open>process_request\<close> raises.
\<close>

lemma lower_unknown:
  "lower ''Unknown function: create_s3_bucket'' = ''unknown function: create_s3_bucket''"
  by code_simp

lemma creation_request_raises:
  "fst (process_request demo_lib denied_boto (demo_model [call_create]) [user_message]
          (Some demo_credentials) s0)
     = Inl (PyException ''Error in process_request: Unknown function: create_s3_bucket'')"
  by (simp add: process_request_def process_request_try_def orchestrator_defs demo_defs
        execution_failed_def lower_unknown)

section \<open>Requests without credentials\<close>

text \<open>
  The environment holds default credentials, the request has none, and the model asks for
  \<^verbatim>\<open>get_s3_bucket_sizes\<close>: the chat path answers that it needs credentials, enters no tool
  method and sends no request to the provider. The operation is refused, not run.
\<close>

theorem default_credentials_counterexample:
  "startup demo_environ = Inr ()
   \<and> demo_environ ''AWS_ACCESS_KEY_ID'' = Some ''AKIADEFAULT''
   \<and> fst (chat demo_lib (demo_boto request_limit) (demo_model [call_sizes])
        \<lparr>messages = [user_message], user_id = None, aws_context = None, awsCredentials = None\<rparr> s0)
      = Inr \<lparr>response = needs_credentials_text, actions_taken = [], aws_resources_affected = [],
             validation_results = None, requiresCredentials = Some True, error = None\<rparr>
   \<and> api_calls (trace (snd (chat demo_lib (demo_boto request_limit) (demo_model [call_sizes])
        \<lparr>messages = [user_message], user_id = None, aws_context = None, awsCredentials = None\<rparr> s0)))
      = []
   \<and> dispatched (trace (snd (chat demo_lib (demo_boto request_limit) (demo_model [call_sizes])
        \<lparr>messages = [user_message], user_id = None, aws_context = None, awsCredentials = None\<rparr> s0)))
      = []"
  by (simp add: startup_def missing_vars_def required_env_vars_def demo_environ_def
        chat_def process_request_def process_request_try_def orchestrator_defs demo_defs
        chat_response_def)

text \<open>
  C5, as the code has it. When a chat request supplies no credentials and the first tool
  call of the model's reply names an operation that requires credentials (and its
  arguments parse), \<^verbatim>\<open>chat\<close> returns, right after the model's reply, the fixed response
  that asks for credentials, with \<^verbatim>\<open>requiresCredentials=True\<close>; no tool method is entered and
  no request is sent to the provider.
\<close>

theorem no_default_credentials:
  assumes none: "awsCredentials request = None"
    and comp: "create_completion M (map to_openai (with_system_message (messages request))) True s
                 = (Inr reply, s1)"
    and calls: "reply_tool_calls reply = tc # rest"
    and args: "loads_arguments L (tc_arguments tc) = Inr entries"
    and req: "requires_aws_credentials (tc_name tc)"
  shows "chat L B M request s =
       (Inr ((chat_response needs_credentials_text)\<lparr>requiresCredentials := Some True\<rparr>), s1)
     \<and> api_calls (new_events s s1) = []
     \<and> dispatched (new_events s s1) = []"
proof -
  note t1 = create_completion_trace [OF comp]
  have "new_events s s1 = [Completion (map to_openai (with_system_message (messages request))) True]"
    using t1 by (simp add: new_events_def)
  moreover have "chat L B M request s =
       (Inr ((chat_response needs_credentials_text)\<lparr>requiresCredentials := Some True\<rparr>), s1)"
    using none comp calls args req
    by (simp add: chat_def process_request_def process_request_try_def Let_def
          handle_tool_call_def)
  ultimately show ?thesis by simp
qed

theorem no_default_credentials_witness:
  "chat demo_lib (demo_boto request_limit) (demo_model [call_sizes])
      \<lparr>messages = [user_message], user_id = None, aws_context = None, awsCredentials = None\<rparr> s0
     = (Inr ((chat_response needs_credentials_text)\<lparr>requiresCredentials := Some True\<rparr>),
        \<lparr>world = (),
         trace = [Completion (map to_openai (with_system_message [user_message])) True]\<rparr>)
   \<and> api_calls (new_events s0
        \<lparr>world = (),
         trace = [Completion (map to_openai (with_system_message [user_message])) True]\<rparr>) = []"
proof -
  let ?request =
    "\<lparr>messages = [user_message], user_id = None, aws_context = None, awsCredentials = None\<rparr>"
  let ?reply = "\<lparr>reply_content = None, reply_tool_calls = [call_sizes]\<rparr>"
  have none: "awsCredentials ?request = None" by simp
  have comp: "create_completion (demo_model [call_sizes])
      (map to_openai (with_system_message (messages ?request))) True s0
    = (Inr ?reply,
       \<lparr>world = (),
         trace = [Completion (map to_openai (with_system_message [user_message])) True]\<rparr>)"
    by (simp add: create_completion_def demo_model_def s0_def)
  have calls: "reply_tool_calls ?reply = call_sizes # []" by simp
  have args: "loads_arguments demo_lib (tc_arguments call_sizes) = Inr []"
    by (simp add: demo_defs)
  have req: "requires_aws_credentials (tc_name call_sizes)"
    by (simp add: requires_aws_credentials_def aws_operations_def call_sizes_def)
  from no_default_credentials [OF none comp calls args req, of "demo_boto request_limit"]
  show ?thesis by simp
qed

section \<open>The policy reviewer\<close>

text \<open>
  C7. \<^verbatim>\<open>validate_aws_operation\<close> runs its identity check on \<^verbatim>\<open>self.session\<close>, which no
  step before the check builds from the credentials it was given. On an agent that has
  not yet invoked the model the session is \<^verbatim>\<open>None\<close>: whatever the credentials, the check
  raises before any request is sent, and the invalid-credentials verdict is returned.
\<close>

theorem identity_check_without_session:
  "validate_aws_operation X (new_agent model) operation (Some c) s =
     (Inr (Fixed (invalid_credentials_verdict none_has_no_client)), new_agent model, s)
   \<and> is_valid (invalid_credentials_verdict none_has_no_client) = False
   \<and> invalid_parameters (invalid_credentials_verdict none_has_no_client) = [''credentials'']"
  by (simp add: validate_aws_operation_def identity_check_def session_client_def new_agent_def
        invalid_credentials_verdict_def)

text \<open>
  The part of C7 the code does keep: a failed check returns the fixed verdict and the
  model is not invoked (the state is the one the check left). And the check, when the
  agent holds a session, asks for the identity of that session's credentials.
\<close>

lemma failed_identity_check:
  assumes "identity_check X agent s = (Inl e, s')"
  shows "validate_aws_operation X agent operation (Some c) s =
           (Inr (Fixed (invalid_credentials_verdict e)), agent, s')"
  using assms by (simp add: validate_aws_operation_def)

lemma identity_check_held_session:
  assumes "session agent = Some held" and "new_client_error X held ''sts'' = None"
  shows "identity_check X agent s = api ''sts.get_caller_identity'' (get_caller_identity X held) s"
  using assms by (simp add: identity_check_def session_client_def)




end
